theory Spec2Isabelle
  imports Main "HOL-Library.Word"
begin

unbundle bit_operations_syntax

section \<open>JavaScript values used by the crypto module\<close>

text \<open>
  A \<open>Uint8Array\<close> (and the bytes of an \<open>ArrayBuffer\<close>) is a list of 8-bit words.  A
  JavaScript string is a sequence of UTF-16 code units, so \<open>length\<close>, \<open>substr\<close> and
  \<open>parseInt\<close> work on 16-bit words.  \<open>js\<close> writes an ASCII literal as such a string.
\<close>

type_synonym byte = "8 word"
type_synonym code_unit = "16 word"
type_synonym js_string = "code_unit list"

definition js :: "string \<Rightarrow> js_string" where
  "js s = map (\<lambda>c. of_nat (of_char c)) s"

text \<open>
  The code units that \<open>parseInt\<close> and \<open>String.prototype.trim\<close> strip
  (ECMAScript \<open>WhiteSpace\<close> and \<open>LineTerminator\<close>).
\<close>

definition isStrWhiteSpaceChar :: "code_unit \<Rightarrow> bool" where
  "isStrWhiteSpaceChar c \<longleftrightarrow>
     c \<in> set [0x0009, 0x000A, 0x000B, 0x000C, 0x000D, 0x0020, 0x00A0, 0x1680,
              0x2028, 0x2029, 0x202F, 0x205F, 0x3000, 0xFEFF]
     \<or> (0x2000 \<le> c \<and> c \<le> 0x200A)"

definition isHexDigit :: "code_unit \<Rightarrow> bool" where
  "isHexDigit c \<longleftrightarrow>
     (0x30 \<le> c \<and> c \<le> 0x39) \<or> (0x61 \<le> c \<and> c \<le> 0x66) \<or> (0x41 \<le> c \<and> c \<le> 0x46)"

definition hexDigitValue :: "code_unit \<Rightarrow> nat" where
  "hexDigitValue c =
     (if 0x30 \<le> c \<and> c \<le> 0x39 then unat c - 48
      else if 0x61 \<le> c \<and> c \<le> 0x66 then unat c - 87
      else if 0x41 \<le> c \<and> c \<le> 0x46 then unat c - 55
      else 0)"

text \<open>
  \<open>parseInt(string, 16)\<close>: leading white space is skipped, one sign is read, a
  \<open>0x\<close>/\<open>0X\<close> prefix is dropped, and the longest run of hex digits is the value.
  With no digit the result is \<open>NaN\<close>, here \<open>None\<close>.  The module only passes
  strings of at most two code units, on which the result is exact.
\<close>

definition parseInt16 :: "js_string \<Rightarrow> int option" where
  "parseInt16 string =
     (let S = dropWhile isStrWhiteSpaceChar string;
          sign = (if S \<noteq> [] \<and> hd S = 0x2D then - 1 else 1 :: int);
          S1 = (if S \<noteq> [] \<and> (hd S = 0x2B \<or> hd S = 0x2D) then tl S else S);
          S2 = (if 2 \<le> length S1 \<and> (take 2 S1 = [0x30, 0x78] \<or> take 2 S1 = [0x30, 0x58])
                then drop 2 S1 else S1);
          Z = takeWhile isHexDigit S2
      in if Z = [] then None
         else Some (sign * int (foldl (\<lambda>a c. 16 * a + hexDigitValue c) 0 Z)))"

text \<open>\<open>hex.substr(start, length)\<close> for a start inside the string.\<close>

definition substr :: "js_string \<Rightarrow> nat \<Rightarrow> nat \<Rightarrow> js_string" where
  "substr s start len = take len (drop start s)"

text \<open>
  Storing a Number into a \<open>Uint8Array\<close> element converts it with \<open>ToUint8\<close>
  (\<open>NaN\<close> becomes 0, an integer is taken modulo 256); a store at an index outside the
  array is ignored.
\<close>

definition ToUint8 :: "int option \<Rightarrow> byte" where
  "ToUint8 v = (case v of None \<Rightarrow> 0 | Some n \<Rightarrow> word_of_int n)"

definition uint8_store :: "byte list \<Rightarrow> nat \<Rightarrow> int option \<Rightarrow> byte list" where
  "uint8_store bytes k v = (if k < length bytes then bytes[k := ToUint8 v] else bytes)"

section \<open>Hex encoding and decoding\<close>

text \<open>
  \<open>hexToBytes\<close>: \<open>new Uint8Array(hex.length / 2)\<close> truncates a fractional length, so
  the array has \<open>length hex div 2\<close> zero bytes; the loop then visits \<open>i = 0, 2, 4, ...\<close>
  below \<open>hex.length\<close>.
\<close>

function hexToBytes_loop :: "js_string \<Rightarrow> nat \<Rightarrow> byte list \<Rightarrow> byte list" where
  "hexToBytes_loop hex i bytes =
     (if i < length hex
      then hexToBytes_loop hex (i + 2) (uint8_store bytes (i div 2) (parseInt16 (substr hex i 2)))
      else bytes)"
  by pat_completeness auto
termination
  by (relation "measure (\<lambda>(hex, i, bytes). length hex - i)") auto

definition hexToBytes :: "js_string \<Rightarrow> byte list" where
  "hexToBytes hex = hexToBytes_loop hex 0 (replicate (length hex div 2) 0)"

text \<open>\<open>b.toString(16)\<close> for a non-negative integer: lower-case digits, no leading zero.\<close>

definition hexDigitChar :: "nat \<Rightarrow> code_unit" where
  "hexDigitChar d = (if d < 10 then of_nat (48 + d) else of_nat (87 + d))"

function toString16 :: "nat \<Rightarrow> js_string" where
  "toString16 n = (if n < 16 then [hexDigitChar n] else toString16 (n div 16) @ [hexDigitChar (n mod 16)])"
  by pat_completeness auto
termination
  by (relation "measure id") auto

text \<open>\<open>s.padStart(targetLength, fill)\<close>.\<close>

definition padStart :: "nat \<Rightarrow> js_string \<Rightarrow> js_string \<Rightarrow> js_string" where
  "padStart targetLength fill s =
     (if targetLength \<le> length s \<or> fill = [] then s
      else take (targetLength - length s) (concat (replicate (targetLength - length s) fill)) @ s)"

definition bufferToHex :: "byte list \<Rightarrow> js_string" where
  "bufferToHex buffer = concat (map (\<lambda>b. padStart 2 (js ''0'') (toString16 (unat b))) buffer)"

text \<open>The decoding of one two-character group, as the loop body computes it.\<close>

definition decodeGroup :: "js_string \<Rightarrow> nat \<Rightarrow> byte" where
  "decodeGroup hex k = ToUint8 (parseInt16 (substr hex (2 * k) 2))"

section \<open>Strings and text encoding\<close>

text \<open>\<open>String.prototype.trim\<close> removes the white space at both ends.\<close>

definition trim :: "js_string \<Rightarrow> js_string" where
  "trim s = rev (dropWhile isStrWhiteSpaceChar (rev (dropWhile isStrWhiteSpaceChar s)))"

text \<open>
  \<open>new TextEncoder().encode(str)\<close>: the string is read as Unicode scalar values (a
  surrogate pair is one value, a surrogate without its partner becomes U+FFFD) and each
  value is written in UTF-8.
\<close>

definition isLeadSurrogate :: "code_unit \<Rightarrow> bool" where
  "isLeadSurrogate u \<longleftrightarrow> 0xD800 \<le> u \<and> u \<le> 0xDBFF"

definition isTrailSurrogate :: "code_unit \<Rightarrow> bool" where
  "isTrailSurrogate u \<longleftrightarrow> 0xDC00 \<le> u \<and> u \<le> 0xDFFF"

definition loneUnit :: "code_unit \<Rightarrow> nat" where
  "loneUnit u = (if isLeadSurrogate u \<or> isTrailSurrogate u then 0xFFFD else unat u)"

fun toScalarValues :: "js_string \<Rightarrow> nat list" where
  "toScalarValues [] = []"
| "toScalarValues [u] = [loneUnit u]"
| "toScalarValues (u # v # rest) =
     (if isLeadSurrogate u \<and> isTrailSurrogate v
      then (0x10000 + (unat u - 0xD800) * 0x400 + (unat v - 0xDC00)) # toScalarValues rest
      else loneUnit u # toScalarValues (v # rest))"

definition utf8Encode :: "nat \<Rightarrow> byte list" where
  "utf8Encode cp =
     (if cp < 0x80 then [of_nat cp]
      else if cp < 0x800 then [of_nat (0xC0 + cp div 0x40), of_nat (0x80 + cp mod 0x40)]
      else if cp < 0x10000 then
        [of_nat (0xE0 + cp div 0x1000), of_nat (0x80 + cp div 0x40 mod 0x40),
         of_nat (0x80 + cp mod 0x40)]
      else
        [of_nat (0xF0 + cp div 0x40000), of_nat (0x80 + cp div 0x1000 mod 0x40),
         of_nat (0x80 + cp div 0x40 mod 0x40), of_nat (0x80 + cp mod 0x40)])"

definition stringToBytes :: "js_string \<Rightarrow> byte list" where
  "stringToBytes str = concat (map utf8Encode (toScalarValues str))"

text \<open>\<open>null\<close> passed where a string is expected is converted to the text \<open>null\<close>.\<close>

definition jsToString :: "js_string option \<Rightarrow> js_string" where
  "jsToString v = (case v of None \<Rightarrow> js ''null'' | Some s \<Rightarrow> s)"

section \<open>Exceptions\<close>

text \<open>
  A thrown value is an object with a \<open>name\<close> and a \<open>message\<close>; a rejected promise
  is the \<open>Inl\<close> of a sum.  \<open>new Error(m)\<close> has the name \<open>Error\<close>.
\<close>

record js_error =
  errName :: js_string
  errMessage :: js_string

definition Error :: "js_string \<Rightarrow> js_error" where
  "Error m = \<lparr>errName = js ''Error'', errMessage = m\<rparr>"

section \<open>The host platform\<close>

text \<open>
  The Web Crypto primitives and the Unicode case mapping belong to the browser, not to
  the repository, so the module is modelled over any platform that provides them:
  \<^item> \<open>digest_sha256 data\<close> is \<open>crypto.subtle.digest('SHA-256', data)\<close>;
  \<^item> \<open>pbkdf2_sha256 password salt iterations bits\<close> is PBKDF2 with SHA-256, as both
    \<open>deriveBits\<close> and \<open>deriveKey\<close> (for an AES key of that many bits) compute it;
  \<^item> \<open>aes_gcm_encrypt key iv tagLength data\<close> and \<open>aes_gcm_decrypt\<close> are AES-GCM
    with no additional data; the module never sets \<open>tagLength\<close>, so the Web Crypto
    default of 128 bits applies;
  \<^item> \<open>toLowerCase\<close> is \<open>String.prototype.toLowerCase\<close>.
  Each primitive returns a promise, which may be rejected.
\<close>

record platform =
  digest_sha256 :: "byte list \<Rightarrow> js_error + byte list"
  pbkdf2_sha256 :: "byte list \<Rightarrow> byte list \<Rightarrow> nat \<Rightarrow> nat \<Rightarrow> js_error + byte list"
  aes_gcm_encrypt :: "byte list \<Rightarrow> byte list \<Rightarrow> nat \<Rightarrow> byte list \<Rightarrow> js_error + byte list"
  aes_gcm_decrypt :: "byte list \<Rightarrow> byte list \<Rightarrow> nat \<Rightarrow> byte list \<Rightarrow> js_error + byte list"
  toLowerCase :: "js_string \<Rightarrow> js_string"

text \<open>
  \<open>crypto.getRandomValues(array)\<close> fills the array from the generator.  The generator
  is an endless tape of bytes; a call reads the next bytes and moves past them.
\<close>

type_synonym rng = "nat \<Rightarrow> byte"

definition getRandomValues :: "nat \<Rightarrow> rng \<Rightarrow> byte list \<times> rng" where
  "getRandomValues n g = (map g [0..<n], \<lambda>i. g (i + n))"

definition DEFAULT_TAG_LENGTH :: nat where
  "DEFAULT_TAG_LENGTH = 128"

section \<open>The crypto module\<close>

definition PBKDF2_ITERATIONS :: nat where
  "PBKDF2_ITERATIONS = 100000"

definition SALT_BYTES :: nat where
  "SALT_BYTES = 16"

definition IV_BYTES :: nat where
  "IV_BYTES = 12"

definition generateRandomHex :: "nat \<Rightarrow> rng \<Rightarrow> js_string \<times> rng" where
  "generateRandomHex bytes g =
     (let (array, g') = getRandomValues bytes g
      in (concat (map (\<lambda>b. padStart 2 (js ''0'') (toString16 (unat b))) array), g'))"

text \<open>
  \<open>deriveKey\<close> imports the UTF-8 bytes of the password as key material and derives a
  256-bit AES-GCM key; the key is held as its bytes.
\<close>

definition deriveKey :: "platform \<Rightarrow> js_string \<Rightarrow> byte list \<Rightarrow> js_error + byte list" where
  "deriveKey P password salt =
     (let keyMaterial = stringToBytes password
      in pbkdf2_sha256 P keyMaterial salt PBKDF2_ITERATIONS 256)"

definition hashPassword :: "platform \<Rightarrow> js_string \<Rightarrow> byte list \<Rightarrow> js_error + js_string" where
  "hashPassword P password salt =
     (let keyMaterial = stringToBytes password
      in case pbkdf2_sha256 P keyMaterial salt PBKDF2_ITERATIONS 256 of
           Inl e \<Rightarrow> Inl e
         | Inr bits \<Rightarrow> Inr (bufferToHex bits))"

definition hashEmail :: "platform \<Rightarrow> js_string \<Rightarrow> js_error + js_string" where
  "hashEmail P email =
     (let data = stringToBytes (trim (toLowerCase P email))
      in case digest_sha256 P data of Inl e \<Rightarrow> Inl e | Inr h \<Rightarrow> Inr (bufferToHex h))"

definition hashFile :: "platform \<Rightarrow> byte list \<Rightarrow> js_error + js_string" where
  "hashFile P data =
     (case digest_sha256 P data of Inl e \<Rightarrow> Inl e | Inr h \<Rightarrow> Inr (bufferToHex h))"

record envelope =
  ciphertext :: "byte list"
  iv :: js_string
  salt :: js_string
  fileHash :: js_string

definition encryptFile ::
  "platform \<Rightarrow> rng \<Rightarrow> byte list \<Rightarrow> js_string \<Rightarrow> (js_error + envelope) \<times> rng" where
  "encryptFile P g data password =
     (let (saltHex, g1) = generateRandomHex SALT_BYTES g;
          saltBytes = hexToBytes saltHex;
          (ivHex, g2) = generateRandomHex IV_BYTES g1;
          ivBytes = hexToBytes ivHex
      in ((case hashFile P data of
            Inl e \<Rightarrow> Inl e
          | Inr h \<Rightarrow>
              (case deriveKey P password saltBytes of
                 Inl e \<Rightarrow> Inl e
               | Inr key \<Rightarrow>
                   (case aes_gcm_encrypt P key ivBytes DEFAULT_TAG_LENGTH data of
                      Inl e \<Rightarrow> Inl e
                    | Inr c \<Rightarrow>
                        Inr \<lparr>ciphertext = c, iv = bufferToHex ivBytes,
                             salt = bufferToHex saltBytes, fileHash = h\<rparr>))),
          g2))"

definition decryptFile ::
  "platform \<Rightarrow> byte list \<Rightarrow> js_string \<Rightarrow> js_string \<Rightarrow> js_string \<Rightarrow> js_error + byte list" where
  "decryptFile P c ivHex saltHex password =
     (let ivBytes = hexToBytes ivHex;
          saltBytes = hexToBytes saltHex
      in case deriveKey P password saltBytes of
           Inl e \<Rightarrow> Inl e
         | Inr key \<Rightarrow> aes_gcm_decrypt P key ivBytes DEFAULT_TAG_LENGTH c)"

section \<open>The API client\<close>

text \<open>
  A JSON object is a list of members; only string members are used.  The transport is
  \<open>fetch\<close> together with the server behind it: it answers a request or fails.
\<close>

type_synonym json = "(js_string \<times> js_string) list"

record http_request =
  url :: js_string
  http_method :: js_string
  headers :: json
  body :: json

record http_response =
  ok :: bool
  payload :: "json option"

type_synonym transport = "http_request \<Rightarrow> js_error + http_response"

definition BASE_URL :: js_string where
  "BASE_URL = js ''/api''"

text \<open>\<open>parseResponse\<close>: the JSON of the reply, or a fixed object when it is not JSON.\<close>

definition parseResponse :: "http_response \<Rightarrow> json" where
  "parseResponse res =
     (case payload res of
        Some data \<Rightarrow> data
      | None \<Rightarrow> [(js ''detail'', js ''Unexpected server response.'')])"

text \<open>\<open>a || b\<close> for a string \<open>a\<close> that may be undefined: the empty string is falsy.\<close>

definition orDefault :: "js_string option \<Rightarrow> js_string \<Rightarrow> js_string" where
  "orDefault a b = (case a of None \<Rightarrow> b | Some s \<Rightarrow> if s = [] then b else s)"

definition register_request :: "js_string \<Rightarrow> js_string \<Rightarrow> js_string \<Rightarrow> http_request" where
  "register_request email passwordHash saltHex =
     \<lparr>url = BASE_URL @ js ''/register'', http_method = js ''POST'',
      headers = [(js ''Content-Type'', js ''application/json'')],
      body = [(js ''email'', email), (js ''password_hash'', passwordHash), (js ''salt'', saltHex)]\<rparr>"

definition login_request :: "js_string \<Rightarrow> js_string \<Rightarrow> http_request" where
  "login_request email passwordHash =
     \<lparr>url = BASE_URL @ js ''/login'', http_method = js ''POST'',
      headers = [(js ''Content-Type'', js ''application/json'')],
      body = [(js ''email'', email), (js ''password_hash'', passwordHash)]\<rparr>"

text \<open>
  \<open>SCSApi.register\<close> and \<open>SCSApi.login\<close>.  Each returns the requests it has sent
  together with its result.
\<close>

definition register ::
  "transport \<Rightarrow> js_string \<Rightarrow> js_string \<Rightarrow> js_string \<Rightarrow> http_request list \<times> (js_error + json)" where
  "register net email passwordHash saltHex =
     (let req = register_request email passwordHash saltHex
      in ([req],
          case net req of
            Inl e \<Rightarrow> Inl e
          | Inr res \<Rightarrow>
              (let data = parseResponse res
               in if \<not> ok res
                  then Inl (Error (orDefault (map_of data (js ''detail'')) (js ''Registration failed.'')))
                  else Inr data)))"

definition login ::
  "transport \<Rightarrow> js_string \<Rightarrow> js_string \<Rightarrow> http_request list \<times> (js_error + json)" where
  "login net email passwordHash =
     (let req = login_request email passwordHash
      in ([req],
          case net req of
            Inl e \<Rightarrow> Inl e
          | Inr res \<Rightarrow>
              (let data = parseResponse res
               in if \<not> ok res
                  then Inl (Error (orDefault (map_of data (js ''detail'')) (js ''Login failed.'')))
                  else Inr data)))"

section \<open>The storage manager\<close>

record metadata =
  original_name :: js_string
  original_size :: nat
  meta_iv :: js_string
  meta_salt :: js_string
  file_hash :: js_string

text \<open>
  A storage provider (local server or cloud) is an external collaborator; the arguments
  are the e-mail, the password hash, the blob, the metadata and the file name.
\<close>

record storage =
  provider_saveFile ::
    "js_string option \<Rightarrow> js_string option \<Rightarrow> byte list \<Rightarrow> metadata \<Rightarrow> js_string \<Rightarrow> js_error + unit"
  provider_getFileBlob :: "js_string option \<Rightarrow> js_string \<Rightarrow> js_error + byte list"
  provider_getMetadata :: "js_string option \<Rightarrow> js_string \<Rightarrow> js_error + metadata"

definition saveFile ::
  "storage option \<Rightarrow> js_string option \<Rightarrow> js_string option \<Rightarrow> byte list \<Rightarrow> metadata \<Rightarrow>
   js_string \<Rightarrow> js_error + unit" where
  "saveFile currentProvider email passwordHash encryptedBlob md filename =
     (case currentProvider of
        None \<Rightarrow> Inl (Error (js ''No storage provider configured.''))
      | Some p \<Rightarrow> provider_saveFile p email passwordHash encryptedBlob md filename)"

definition getFileBlob ::
  "storage option \<Rightarrow> js_string option \<Rightarrow> js_string \<Rightarrow> js_error + byte list" where
  "getFileBlob currentProvider email filename =
     (case currentProvider of
        None \<Rightarrow> Inl (Error (js ''No storage provider configured.''))
      | Some p \<Rightarrow> provider_getFileBlob p email filename)"

definition getMetadata ::
  "storage option \<Rightarrow> js_string option \<Rightarrow> js_string \<Rightarrow> js_error + metadata" where
  "getMetadata currentProvider email filename =
     (case currentProvider of
        None \<Rightarrow> Inl (Error (js ''No storage provider configured.''))
      | Some p \<Rightarrow> provider_getMetadata p email filename)"

section \<open>The application controller\<close>

text \<open>
  The controller's variables; \<open>null\<close> is \<open>None\<close>.  The copy of the three session
  values in \<open>sessionStorage\<close> and the screens are left out.
\<close>

record session =
  currentEmail :: "js_string option"
  currentPasswordHash :: "js_string option"
  currentSalt :: "js_string option"
  isUploading :: bool

definition saveSession ::
  "session \<Rightarrow> js_string \<Rightarrow> js_string \<Rightarrow> js_string option \<Rightarrow> session" where
  "saveSession st email passwordHash saltHex =
     st\<lparr>currentEmail := Some email, currentPasswordHash := Some passwordHash,
        currentSalt := saltHex\<rparr>"

text \<open>
  \<open>validateEmail\<close> tests the pattern
  \<^verbatim>\<open>^[a-zA-Z0-9._%+\-]+@[a-zA-Z0-9.\-]+\.[a-zA-Z]{2,}$\<close>.
  No class contains \<open>@\<close>, so the local part is what precedes the first \<open>@\<close>; the last
  class has no dot, so the final label is what follows the last dot after it.
\<close>

definition isAlpha :: "code_unit \<Rightarrow> bool" where
  "isAlpha c \<longleftrightarrow> (0x41 \<le> c \<and> c \<le> 0x5A) \<or> (0x61 \<le> c \<and> c \<le> 0x7A)"

definition isDigit :: "code_unit \<Rightarrow> bool" where
  "isDigit c \<longleftrightarrow> 0x30 \<le> c \<and> c \<le> 0x39"

definition isLocalChar :: "code_unit \<Rightarrow> bool" where
  "isLocalChar c \<longleftrightarrow> isAlpha c \<or> isDigit c \<or> c \<in> set [0x2E, 0x5F, 0x25, 0x2B, 0x2D]"

definition isDomainChar :: "code_unit \<Rightarrow> bool" where
  "isDomainChar c \<longleftrightarrow> isAlpha c \<or> isDigit c \<or> c \<in> set [0x2E, 0x2D]"

definition validateEmail :: "js_string \<Rightarrow> bool" where
  "validateEmail email =
     (let localPart = takeWhile (\<lambda>c. c \<noteq> 0x40) email;
          rest = drop (Suc (length localPart)) email;
          label = rev (takeWhile (\<lambda>c. c \<noteq> 0x2E) (rev rest));
          domain = take (length rest - Suc (length label)) rest
      in length localPart < length email \<and> localPart \<noteq> [] \<and> list_all isLocalChar localPart
         \<and> length label < length rest \<and> domain \<noteq> [] \<and> list_all isDomainChar domain
         \<and> 2 \<le> length label \<and> list_all isAlpha label)"

text \<open>
  The authentication salt is computed in three places: the register handler, the login
  handler and \<open>performDecrypt\<close>.  \<open>new Uint8Array(emailHash).slice(0, 16)\<close> keeps the
  first 16 bytes.
\<close>

definition register_authSalt :: "platform \<Rightarrow> js_string \<Rightarrow> js_error + byte list" where
  "register_authSalt P email =
     (case digest_sha256 P (stringToBytes (trim (toLowerCase P email))) of
        Inl e \<Rightarrow> Inl e
      | Inr emailHash \<Rightarrow> Inr (take 16 emailHash))"

definition login_authSalt :: "platform \<Rightarrow> js_string \<Rightarrow> js_error + byte list" where
  "login_authSalt P email =
     (case digest_sha256 P (stringToBytes (trim (toLowerCase P email))) of
        Inl e \<Rightarrow> Inl e
      | Inr emailHash \<Rightarrow> Inr (take 16 emailHash))"

text \<open>In \<open>performDecrypt\<close> the e-mail is the session's; calling a method on \<open>null\<close> throws.\<close>

definition decrypt_authSalt :: "platform \<Rightarrow> js_string option \<Rightarrow> js_error + byte list" where
  "decrypt_authSalt P email =
     (case email of
        None \<Rightarrow> Inl \<lparr>errName = js ''TypeError'', errMessage = js ''currentEmail is null''\<rparr>
      | Some em \<Rightarrow>
          (case digest_sha256 P (stringToBytes (trim (toLowerCase P em))) of
             Inl e \<Rightarrow> Inl e
           | Inr emailHash \<Rightarrow> Inr (take 16 emailHash)))"

datatype auth_outcome =
  Ignored
  | FieldError js_string js_string
  | Toast js_string js_string

text \<open>
  The submit handler of the register form.  It returns the new session, the requests
  sent to the authentication backend and what the user is shown.
\<close>

definition register_submit ::
  "platform \<Rightarrow> transport \<Rightarrow> session \<Rightarrow> bool \<Rightarrow> js_string \<Rightarrow> js_string \<Rightarrow> js_string \<Rightarrow>
   session \<times> http_request list \<times> auth_outcome" where
  "register_submit P net st btnDisabled emailValue password confirm =
     (if btnDisabled then (st, [], Ignored)
      else
        let email = trim emailValue in
        if \<not> validateEmail email
        then (st, [], FieldError (js ''register-email-error'') (js ''Please enter a valid email address.''))
        else if length password < 8
        then (st, [], FieldError (js ''register-password-error'')
                (js ''Password must be at least 8 characters.''))
        else if password \<noteq> confirm
        then (st, [], FieldError (js ''register-confirm-error'') (js ''Passwords do not match.''))
        else
          (case register_authSalt P email of
             Inl err \<Rightarrow> (st, [], Toast (errMessage err) (js ''error''))
           | Inr authSalt \<Rightarrow>
               (let authSaltHex = bufferToHex authSalt in
                case hashPassword P password authSalt of
                  Inl err \<Rightarrow> (st, [], Toast (errMessage err) (js ''error''))
                | Inr passwordHash \<Rightarrow>
                    (case register net email passwordHash authSaltHex of
                       (sent, Inl err) \<Rightarrow> (st, sent, Toast (errMessage err) (js ''error''))
                     | (sent, Inr data) \<Rightarrow>
                         (saveSession st email passwordHash (Some authSaltHex), sent,
                          Toast (js ''Account created successfully!'') (js ''success''))))))"

text \<open>The submit handler of the login form; the session keeps the salt the server returns.\<close>

definition login_submit ::
  "platform \<Rightarrow> transport \<Rightarrow> session \<Rightarrow> bool \<Rightarrow> js_string \<Rightarrow> js_string \<Rightarrow>
   session \<times> http_request list \<times> auth_outcome" where
  "login_submit P net st btnDisabled emailValue password =
     (if btnDisabled then (st, [], Ignored)
      else
        let email = trim emailValue in
        if \<not> validateEmail email
        then (st, [], FieldError (js ''login-email-error'') (js ''Please enter a valid email address.''))
        else if password = []
        then (st, [], FieldError (js ''login-password-error'') (js ''Password is required.''))
        else
          (case login_authSalt P email of
             Inl err \<Rightarrow> (st, [], Toast (errMessage err) (js ''error''))
           | Inr authSalt \<Rightarrow>
               (case hashPassword P password authSalt of
                  Inl err \<Rightarrow> (st, [], Toast (errMessage err) (js ''error''))
                | Inr passwordHash \<Rightarrow>
                    (case login net email passwordHash of
                       (sent, Inl err) \<Rightarrow> (st, sent, Toast (errMessage err) (js ''error''))
                     | (sent, Inr data) \<Rightarrow>
                         (saveSession st email passwordHash (map_of data (js ''salt'')), sent,
                          Toast (js ''Welcome back!'') (js ''success''))))))"

text \<open>A file chosen by the user: \<open>file.size\<close> is the number of its bytes.\<close>

record upload_file =
  file_name :: js_string
  file_bytes :: "byte list"

datatype upload_outcome =
  UploadBusy
  | FileTooLarge
  | UploadFailed js_string
  | UploadDone

text \<open>
  \<open>handleFileUpload\<close>.  It returns the session, the generator, the blob and metadata
  handed to the storage provider (if that call was made) and what the user is shown.
\<close>

definition handleFileUpload ::
  "platform \<Rightarrow> storage option \<Rightarrow> rng \<Rightarrow> session \<Rightarrow> upload_file \<Rightarrow>
   session \<times> rng \<times> (byte list \<times> metadata) option \<times> upload_outcome" where
  "handleFileUpload P currentProvider g st f =
     (if isUploading st then (st, g, None, UploadBusy)
      else if 50 * 1024 * 1024 < length (file_bytes f) then (st, g, None, FileTooLarge)
      else
        let arrayBuffer = file_bytes f;
            (encrypted, g') = encryptFile P g arrayBuffer (jsToString (currentPasswordHash st))
        in case encrypted of
             Inl err \<Rightarrow> (st\<lparr>isUploading := False\<rparr>, g', None, UploadFailed (errMessage err))
           | Inr env \<Rightarrow>
               (let encryptedBlob = ciphertext env;
                    md = \<lparr>original_name = file_name f, original_size = length (file_bytes f),
                          meta_iv = iv env, meta_salt = salt env, file_hash = fileHash env\<rparr>
                in case saveFile currentProvider (currentEmail st) (currentPasswordHash st)
                          encryptedBlob md (file_name f) of
                     Inl err \<Rightarrow>
                       (st\<lparr>isUploading := False\<rparr>, g', Some (encryptedBlob, md),
                        UploadFailed (errMessage err))
                   | Inr u \<Rightarrow>
                       (st\<lparr>isUploading := False\<rparr>, g', Some (encryptedBlob, md), UploadDone)))"

text \<open>\<open>str.includes(search)\<close>.\<close>

fun str_includes :: "js_string \<Rightarrow> js_string \<Rightarrow> bool" where
  "str_includes [] search = (search = [])"
| "str_includes (c # s) search = (take (length search) (c # s) = search \<or> str_includes s search)"

datatype decrypt_outcome =
  PasswordRequired
  | Downloaded js_string "byte list"
  | ErrorShown js_string js_string

text \<open>The \<open>catch\<close> block of \<open>performDecrypt\<close>: the title and the message shown.\<close>

definition decryptError :: "js_error \<Rightarrow> decrypt_outcome" where
  "decryptError err =
     (if errMessage err = js ''INTEGRITY_FAIL''
      then ErrorShown (js ''Integrity Check Failed'')
             (js ''The file appears to have been tampered with. The SHA-256 hash does not match the original. This file should not be trusted.'')
      else if errName err = js ''OperationError'' \<or> str_includes (errMessage err) (js ''decrypt'')
      then ErrorShown (js ''Decryption Failed'')
             (js ''The password you entered is incorrect, or the file is corrupted. Please check your password and try again.'')
      else ErrorShown (js ''Download Failed'')
             (orDefault (Some (errMessage err)) (js ''An unexpected error occurred. Please try again.'')))"

text \<open>The hash recomputed from the password typed into the download dialog.\<close>

definition decrypt_enteredHash :: "platform \<Rightarrow> session \<Rightarrow> js_string \<Rightarrow> js_error + js_string" where
  "decrypt_enteredHash P st password =
     (case decrypt_authSalt P (currentEmail st) of
        Inl err \<Rightarrow> Inl err
      | Inr authSalt \<Rightarrow> hashPassword P password authSalt)"

text \<open>
  \<open>performDecrypt\<close> for the file \<open>filename\<close> of the download dialog: fetch, decrypt,
  verify, and only then hand the plaintext to the browser as a download.
\<close>

definition performDecrypt ::
  "platform \<Rightarrow> storage option \<Rightarrow> session \<Rightarrow> js_string \<Rightarrow> js_string \<Rightarrow> decrypt_outcome" where
  "performDecrypt P currentProvider st filename password =
     (if password = [] then PasswordRequired
      else
        case getMetadata currentProvider (currentEmail st) filename of
          Inl err \<Rightarrow> decryptError err
        | Inr md \<Rightarrow>
            (case getFileBlob currentProvider (currentEmail st) filename of
               Inl err \<Rightarrow> decryptError err
             | Inr c \<Rightarrow>
                 (case decrypt_enteredHash P st password of
                    Inl err \<Rightarrow> decryptError err
                  | Inr enteredHash \<Rightarrow>
                      (case decryptFile P c (meta_iv md) (meta_salt md) enteredHash of
                         Inl err \<Rightarrow> decryptError err
                       | Inr decrypted \<Rightarrow>
                           (case hashFile P decrypted of
                              Inl err \<Rightarrow> decryptError err
                            | Inr computedHash \<Rightarrow>
                                if computedHash \<noteq> file_hash md
                                then decryptError (Error (js ''INTEGRITY_FAIL''))
                                else Downloaded (orDefault (Some (original_name md)) filename)
                                       decrypted)))))"

section \<open>Assumptions on the platform and a small platform to compute with\<close>

text \<open>
  What the theorems below assume of AES-GCM: decryption under the key and IV of the
  encryption returns the plaintext, and the tag of the chosen length is appended to the
  ciphertext.
\<close>

definition aead_correct :: "platform \<Rightarrow> bool" where
  "aead_correct P \<longleftrightarrow>
     (\<forall>key ivBytes data c.
        aes_gcm_encrypt P key ivBytes DEFAULT_TAG_LENGTH data = Inr c \<longrightarrow>
        aes_gcm_decrypt P key ivBytes DEFAULT_TAG_LENGTH c = Inr data)"

definition aead_tag_appended :: "platform \<Rightarrow> bool" where
  "aead_tag_appended P \<longleftrightarrow>
     (\<forall>key ivBytes tagLength data c.
        aes_gcm_encrypt P key ivBytes tagLength data = Inr c \<longrightarrow>
        length c = length data + tagLength div 8)"

text \<open>
  Flipping bit \<open>i\<close> of a byte sequence, and the integrity that AES-GCM gives against it:
  a ciphertext that the platform produced, with any one bit flipped, fails the tag
  verification under the same key and IV, which Web Crypto reports as an
  \<open>OperationError\<close>.
\<close>

definition flipBit :: "byte list \<Rightarrow> nat \<Rightarrow> byte list" where
  "flipBit c i = c[i div 8 := (c ! (i div 8)) XOR push_bit (i mod 8) 1]"

definition aead_detects_bitflip :: "platform \<Rightarrow> bool" where
  "aead_detects_bitflip P \<longleftrightarrow>
     (\<forall>key ivBytes data c i.
        aes_gcm_encrypt P key ivBytes DEFAULT_TAG_LENGTH data = Inr c \<and> i < 8 * length c \<longrightarrow>
        (\<exists>e. aes_gcm_decrypt P key ivBytes DEFAULT_TAG_LENGTH (flipBit c i) = Inl e
             \<and> errName e = js ''OperationError''))"

text \<open>The bytes that one call of \<open>encryptFile\<close> reads from the generator.\<close>

definition drawnSalt :: "rng \<Rightarrow> byte list" where
  "drawnSalt g = map g [0..<SALT_BYTES]"

definition drawnIv :: "rng \<Rightarrow> byte list" where
  "drawnIv g = map g [SALT_BYTES..<SALT_BYTES + IV_BYTES]"

text \<open>What one two-character group decodes to, case by case.\<close>

definition groupByte :: "code_unit \<Rightarrow> code_unit \<Rightarrow> byte" where
  "groupByte a b =
     (if isHexDigit a \<and> isHexDigit b then of_nat (16 * hexDigitValue a + hexDigitValue b)
      else if isHexDigit a then of_nat (hexDigitValue a)
      else if isStrWhiteSpaceChar a \<or> a = 0x2B
      then (if isHexDigit b then of_nat (hexDigitValue b) else 0)
      else if a = 0x2D then (if isHexDigit b then - of_nat (hexDigitValue b) else 0)
      else 0)"

text \<open>
  A platform with toy primitives, on which every definition can be evaluated.  Its
  key derivation returns a checksum of salt and password followed by zeros; its cipher
  masks each byte and appends a checksum as the tag.  It has the properties above and
  nothing of the strength of the real primitives.
\<close>

definition OperationError :: js_error where
  "OperationError = \<lparr>errName = js ''OperationError'', errMessage = []\<rparr>"

definition toy_digest :: "byte list \<Rightarrow> js_error + byte list" where
  "toy_digest data = Inr (take 32 (of_nat (length data) # data @ replicate 32 0))"

definition toy_pbkdf2 :: "byte list \<Rightarrow> byte list \<Rightarrow> nat \<Rightarrow> nat \<Rightarrow> js_error + byte list" where
  "toy_pbkdf2 password saltBytes iterations bits =
     Inr (take (bits div 8) ((sum_list saltBytes + sum_list password) # replicate (bits div 8) 0))"

definition toy_checksum :: "byte list \<Rightarrow> byte list \<Rightarrow> byte list \<Rightarrow> byte" where
  "toy_checksum key ivBytes data = sum_list key + sum_list ivBytes + sum_list data + 1"

definition toy_mask :: "byte list \<Rightarrow> byte list \<Rightarrow> byte" where
  "toy_mask key ivBytes = sum_list key + 3 * sum_list ivBytes"

definition toy_encrypt :: "byte list \<Rightarrow> byte list \<Rightarrow> nat \<Rightarrow> byte list \<Rightarrow> js_error + byte list" where
  "toy_encrypt key ivBytes tagLength data =
     Inr (map (\<lambda>b. b XOR toy_mask key ivBytes) data
          @ replicate (tagLength div 8) (toy_checksum key ivBytes data))"

definition toy_decrypt :: "byte list \<Rightarrow> byte list \<Rightarrow> nat \<Rightarrow> byte list \<Rightarrow> js_error + byte list" where
  "toy_decrypt key ivBytes tagLength c =
     (let n = tagLength div 8;
          body = take (length c - n) c;
          tag = drop (length c - n) c;
          data = map (\<lambda>b. b XOR toy_mask key ivBytes) body
      in if n \<le> length c \<and> tag = replicate n (toy_checksum key ivBytes data)
         then Inr data else Inl OperationError)"

definition toy_toLowerCase :: "js_string \<Rightarrow> js_string" where
  "toy_toLowerCase s = map (\<lambda>c. if 0x41 \<le> c \<and> c \<le> 0x5A then c + 0x20 else c) s"

definition toy_platform :: platform where
  "toy_platform = \<lparr>digest_sha256 = toy_digest, pbkdf2_sha256 = toy_pbkdf2,
     aes_gcm_encrypt = toy_encrypt, aes_gcm_decrypt = toy_decrypt,
     toLowerCase = toy_toLowerCase\<rparr>"

text \<open>
  Two generator states that differ in their first byte only, and the envelopes that the
  toy platform returns for the plaintext \<open>[1, 2, 3]\<close> and the password \<open>pw\<close> from
  them.
\<close>

definition zero_tape :: rng where
  "zero_tape = (\<lambda>i. 0)"

definition one_zero_tape :: rng where
  "one_zero_tape = (\<lambda>i. if i = 0 then 1 else 0)"

definition toy_envelope_A :: envelope where
  "toy_envelope_A =
     \<lparr>ciphertext = [230, 229, 228] @ replicate 16 238,
      iv = bufferToHex (replicate 12 0), salt = bufferToHex (replicate 16 0),
      fileHash = bufferToHex ([3, 1, 2, 3] @ replicate 28 0)\<rparr>"

definition toy_envelope_B :: envelope where
  "toy_envelope_B =
     \<lparr>ciphertext = [233, 234, 235] @ replicate 16 239,
      iv = bufferToHex (replicate 12 0), salt = bufferToHex (1 # replicate 15 0),
      fileHash = bufferToHex ([3, 1, 2, 3] @ replicate 28 0)\<rparr>"

text \<open>
  The envelope that the toy platform returns from the first generator state for the
  password that consists of the single code unit \<open>0xD800\<close>.
\<close>

definition toy_envelope_C :: envelope where
  "toy_envelope_C =
     \<lparr>ciphertext = [106, 105, 104] @ replicate 16 114,
      iv = bufferToHex (replicate 12 0), salt = bufferToHex (replicate 16 0),
      fileHash = bufferToHex ([3, 1, 2, 3] @ replicate 28 0)\<rparr>"

text \<open>
  A session before login, a server that accepts every request, the salt and the hash
  that the toy platform derives for the e-mail \<open>a@b.cd\<close> and the password
  \<open>0123456789abcdefX\<close>, and the hash it derives for the password \<open>wrongpassword\<close>.
\<close>

definition empty_session :: session where
  "empty_session = \<lparr>currentEmail = None, currentPasswordHash = None, currentSalt = None,
     isUploading = False\<rparr>"

definition toy_net :: transport where
  "toy_net = (\<lambda>req. Inr \<lparr>ok = True, payload = Some [(js ''salt'', js ''00'')]\<rparr>)"

definition toy_authSalt :: "byte list" where
  "toy_authSalt = [6, 97, 64, 98, 46, 99, 100] @ replicate 9 0"

definition toy_passwordHash :: js_string where
  "toy_passwordHash = bufferToHex (184 # replicate 31 0)"

definition toy_wrongHash :: js_string where
  "toy_wrongHash = bufferToHex (158 # replicate 31 0)"

text \<open>
  The session after registering that e-mail and password, the file \<open>a.txt\<close> with the
  bytes \<open>[1, 2, 3]\<close>, the key that the toy platform derives from the session's hash
  and the zero salt, the metadata stored with the file, and a storage provider that
  returns that metadata and a given blob.
\<close>

definition toy_session :: session where
  "toy_session = \<lparr>currentEmail = Some (js ''a@b.cd''), currentPasswordHash = Some toy_passwordHash,
     currentSalt = Some (bufferToHex toy_authSalt), isUploading = False\<rparr>"

definition toy_metadata :: metadata where
  "toy_metadata = \<lparr>original_name = js ''a.txt'', original_size = 3,
     meta_iv = bufferToHex (replicate 12 0), meta_salt = bufferToHex (replicate 16 0),
     file_hash = bufferToHex ([3, 1, 2, 3] @ replicate 28 0)\<rparr>"

definition toy_storage :: "byte list \<Rightarrow> storage" where
  "toy_storage blob =
     \<lparr>provider_saveFile = (\<lambda>email passwordHash encryptedBlob md filename. Inr ()),
      provider_getFileBlob = (\<lambda>email filename. Inr blob),
      provider_getMetadata = (\<lambda>email filename. Inr toy_metadata)\<rparr>"

definition toy_fileKey :: "byte list" where
  "toy_fileKey = 58 # replicate 31 0"

definition toy_file :: upload_file where
  "toy_file = \<lparr>file_name = js ''a.txt'', file_bytes = [1, 2, 3]\<rparr>"

section \<open>Properties of the hex codec\<close>

lemmas hexToBytes_loop_unfold = hexToBytes_loop.simps

declare hexToBytes_loop.simps [simp del]
declare toString16.simps [simp del]

lemma uint8_store_length [simp]: "length (uint8_store bytes k v) = length bytes"
  by (simp add: uint8_store_def)

lemma hexToBytes_loop_length [simp]: "length (hexToBytes_loop hex i bytes) = length bytes"
  by (induction hex i bytes rule: hexToBytes_loop.induct)
     (subst hexToBytes_loop_unfold, simp)

text \<open>
  The loop started at the even index \<open>2 * j\<close> overwrites exactly the positions from
  \<open>j\<close> on that lie inside the array.
\<close>

lemma hexToBytes_loop_nth:
  "k < length bytes \<Longrightarrow>
   hexToBytes_loop hex (2 * j) bytes ! k =
     (if j \<le> k \<and> 2 * k < length hex then decodeGroup hex k else bytes ! k)"
proof (induction "length hex - 2 * j" arbitrary: j bytes rule: less_induct)
  case less
  show ?case
  proof (cases "2 * j < length hex")
    case False
    then show ?thesis
      using less.prems by (subst hexToBytes_loop_unfold) auto
  next
    case True
    have step: "hexToBytes_loop hex (2 * j) bytes =
        hexToBytes_loop hex (2 * Suc j) (uint8_store bytes j (parseInt16 (substr hex (2 * j) 2)))"
      using True by (subst hexToBytes_loop_unfold) simp
    have smaller: "length hex - 2 * Suc j < length hex - 2 * j"
      using True by simp
    have len: "k < length (uint8_store bytes j (parseInt16 (substr hex (2 * j) 2)))"
      using less.prems by simp
    show ?thesis
    proof (cases "k = j")
      case True
      with \<open>2 * j < length hex\<close> less.prems show ?thesis
        unfolding step less.hyps [OF smaller len]
        by (simp add: uint8_store_def decodeGroup_def)
    next
      case False
      with \<open>2 * j < length hex\<close> less.prems show ?thesis
        unfolding step less.hyps [OF smaller len]
        by (auto simp: uint8_store_def decodeGroup_def)
    qed
  qed
qed

lemma hexToBytes_eq_map:
  "hexToBytes hex = map (decodeGroup hex) [0..<length hex div 2]"
proof (rule nth_equalityI)
  show "length (hexToBytes hex) = length (map (decodeGroup hex) [0..<length hex div 2])"
    by (simp add: hexToBytes_def)
next
  fix k assume "k < length (hexToBytes hex)"
  then have k: "k < length hex div 2" by (simp add: hexToBytes_def)
  then have "2 * k < length hex" by simp
  with k show "hexToBytes hex ! k = map (decodeGroup hex) [0..<length hex div 2] ! k"
    using hexToBytes_loop_nth [of k "replicate (length hex div 2) 0" hex 0]
    by (simp add: hexToBytes_def)
qed

subsection \<open>Hex digits\<close>


lemma unat_byte_lt: "unat (b::byte) < 256"
  using unsigned_less [of b, where ?'a = nat] by simp

lemma unat_hexDigitChar:
  "d < 16 \<Longrightarrow> unat (hexDigitChar d) = (if d < 10 then 48 + d else 87 + d)"
  by (simp add: hexDigitChar_def unat_of_nat del: of_nat_add)

lemma isHexDigit_unat:
  "isHexDigit c \<longleftrightarrow> (48 \<le> unat c \<and> unat c \<le> 57) \<or> (97 \<le> unat c \<and> unat c \<le> 102)
      \<or> (65 \<le> unat c \<and> unat c \<le> 70)"
  by (simp add: isHexDigit_def word_le_nat_alt)

lemma hexDigitValue_unat:
  "hexDigitValue c =
     (if 48 \<le> unat c \<and> unat c \<le> 57 then unat c - 48
      else if 97 \<le> unat c \<and> unat c \<le> 102 then unat c - 87
      else if 65 \<le> unat c \<and> unat c \<le> 70 then unat c - 55
      else 0)"
  by (simp add: hexDigitValue_def word_le_nat_alt)

lemma isStrWhiteSpaceChar_unat:
  "isStrWhiteSpaceChar c \<Longrightarrow> unat c \<in> {9, 10, 11, 12, 13, 32} \<or> 160 \<le> unat c"
  unfolding isStrWhiteSpaceChar_def
  by (auto simp: word_le_nat_alt)

lemma hexDigitChar_props:
  assumes "d < 16"
  shows "isHexDigit (hexDigitChar d)" "hexDigitValue (hexDigitChar d) = d"
    "\<not> isStrWhiteSpaceChar (hexDigitChar d)"
    "hexDigitChar d \<noteq> 0x2B" "hexDigitChar d \<noteq> 0x2D"
    "hexDigitChar d \<noteq> 0x78" "hexDigitChar d \<noteq> 0x58"
proof -
  note u = unat_hexDigitChar [OF assms]
  show "isHexDigit (hexDigitChar d)" using assms by (simp add: isHexDigit_unat u)
  show "hexDigitValue (hexDigitChar d) = d" using assms by (simp add: hexDigitValue_unat u)
  show "\<not> isStrWhiteSpaceChar (hexDigitChar d)"
    using isStrWhiteSpaceChar_unat [of "hexDigitChar d"] assms by (auto simp: u split: if_splits)
  show "hexDigitChar d \<noteq> 0x2B" "hexDigitChar d \<noteq> 0x2D"
    "hexDigitChar d \<noteq> 0x78" "hexDigitChar d \<noteq> 0x58"
    using u assms by (auto split: if_splits)
qed


lemma hexToBytes_Nil [simp]: "hexToBytes [] = []"
  by (simp add: hexToBytes_eq_map)

lemma hexToBytes_single [simp]: "hexToBytes [a] = []"
  by (simp add: hexToBytes_eq_map)

lemma decodeGroup_Cons2: "decodeGroup (a # b # rest) (Suc k) = decodeGroup rest k"
  by (simp add: decodeGroup_def substr_def)

lemma hexToBytes_Cons2:
  "hexToBytes (a # b # rest) = ToUint8 (parseInt16 [a, b]) # hexToBytes rest"
proof -
  have "[0..<length (a # b # rest) div 2] = 0 # map Suc [0..<length rest div 2]"
    by (simp add: upt_conv_Cons map_Suc_upt del: upt_Suc)
  then show ?thesis
    by (simp add: hexToBytes_eq_map decodeGroup_Cons2 comp_def)
       (simp add: decodeGroup_def substr_def)
qed

lemma parseInt16_hex_pair:
  assumes "h < 16" "l < 16"
  shows "parseInt16 [hexDigitChar h, hexDigitChar l] = Some (int (16 * h + l))"
  using hexDigitChar_props [OF assms(1)] hexDigitChar_props [OF assms(2)]
  by (simp add: parseInt16_def Let_def)

lemma byte_hex:
  "padStart 2 (js ''0'') (toString16 (unat (b::byte))) =
     [hexDigitChar (unat b div 16), hexDigitChar (unat b mod 16)]"
proof (cases "unat b < 16")
  case True
  then show ?thesis
    by (subst toString16.simps) (simp add: padStart_def js_def hexDigitChar_def)
next
  case False
  moreover have "unat b div 16 < 16" using unat_byte_lt [of b] by simp
  ultimately show ?thesis
    by (subst toString16.simps, subst toString16.simps) (simp add: padStart_def)
qed

lemma ToUint8_byte:
  "ToUint8 (Some (int (16 * (unat (b::byte) div 16) + unat b mod 16))) = b"
  by (simp add: ToUint8_def)

lemma hexToBytes_bufferToHex: "hexToBytes (bufferToHex bs) = bs"
proof (induction bs)
  case Nil
  show ?case by (simp add: bufferToHex_def)
next
  case (Cons b bs)
  have lt: "unat b div 16 < 16" "unat b mod 16 < 16"
    using unat_byte_lt [of b] by simp_all
  have "bufferToHex (b # bs) =
      hexDigitChar (unat b div 16) # hexDigitChar (unat b mod 16) # bufferToHex bs"
    by (simp add: bufferToHex_def byte_hex)
  then show ?case
    using Cons.IH ToUint8_byte [of b]
    by (simp add: hexToBytes_Cons2 parseInt16_hex_pair [OF lt] del: of_nat_add of_nat_mult)
qed


subsection \<open>Decoding one group\<close>


lemma isHexDigit_not_special:
  assumes "isHexDigit c"
  shows "\<not> isStrWhiteSpaceChar c" "c \<noteq> 0x2B" "c \<noteq> 0x2D" "c \<noteq> 0x78" "c \<noteq> 0x58"
proof -
  show "\<not> isStrWhiteSpaceChar c"
    using assms isStrWhiteSpaceChar_unat [of c] by (auto simp: isHexDigit_unat)
  show "c \<noteq> 0x2B" "c \<noteq> 0x2D" "c \<noteq> 0x78" "c \<noteq> 0x58"
    using assms by (auto simp: isHexDigit_unat)
qed

lemma sign_not_space: "\<not> isStrWhiteSpaceChar 0x2B" "\<not> isStrWhiteSpaceChar 0x2D"
  by (simp_all add: isStrWhiteSpaceChar_def)

lemma hexDigitValue_zero: "hexDigitValue 0x30 = 0" "isHexDigit 0x30"
  by (simp_all add: hexDigitValue_def isHexDigit_def)

lemma parseInt16_pair: "ToUint8 (parseInt16 [a, b]) = groupByte a b"
proof (cases "isHexDigit a")
  case True
  note na = isHexDigit_not_special [OF True]
  show ?thesis
  proof (cases "isHexDigit b")
    case hb: True
    note nb = isHexDigit_not_special [OF hb]
    show ?thesis using True hb na nb
      by (simp add: parseInt16_def Let_def groupByte_def ToUint8_def)
  next
    case hb: False
    show ?thesis using True hb na hexDigitValue_zero
      by (auto simp: parseInt16_def Let_def groupByte_def ToUint8_def)
  qed
next
  case False
  show ?thesis
  proof (cases "isStrWhiteSpaceChar a")
    case True
    show ?thesis
    proof (cases "isHexDigit b")
      case hb: True
      note nb = isHexDigit_not_special [OF hb]
      show ?thesis using False True hb nb
        by (simp add: parseInt16_def Let_def groupByte_def ToUint8_def)
    next
      case hb: False
      show ?thesis using False True hb
        by (auto simp: parseInt16_def Let_def groupByte_def ToUint8_def)
    qed
  next
    case ws: False
    show ?thesis using False ws sign_not_space
      by (auto simp: parseInt16_def Let_def groupByte_def ToUint8_def)
  qed
qed


section \<open>Properties of the crypto module\<close>

lemma generateRandomHex_eq:
  "generateRandomHex n g = (bufferToHex (map g [0..<n]), \<lambda>i. g (i + n))"
  by (simp add: generateRandomHex_def getRandomValues_def bufferToHex_def)

lemma map_shift_upt: "map (\<lambda>i. g (i + m)) [0..<n] = map g [m..<m + n]"
  by (induction n) (simp_all add: add.commute)

lemma encryptFile_eq:
  "encryptFile P g data password =
     ((case hashFile P data of
         Inl e \<Rightarrow> Inl e
       | Inr h \<Rightarrow>
           (case deriveKey P password (drawnSalt g) of
              Inl e \<Rightarrow> Inl e
            | Inr key \<Rightarrow>
                (case aes_gcm_encrypt P key (drawnIv g) DEFAULT_TAG_LENGTH data of
                   Inl e \<Rightarrow> Inl e
                 | Inr c \<Rightarrow>
                     Inr \<lparr>ciphertext = c, iv = bufferToHex (drawnIv g),
                          salt = bufferToHex (drawnSalt g), fileHash = h\<rparr>))),
      \<lambda>i. g (i + IV_BYTES + SALT_BYTES))"
  by (simp add: encryptFile_def generateRandomHex_eq hexToBytes_bufferToHex drawnSalt_def
      drawnIv_def map_shift_upt Let_def cong: sum.case_cong)

lemma encryptFile_InrD:
  assumes "encryptFile P g data password = (Inr env, g')"
  obtains key where "hashFile P data = Inr (fileHash env)"
    and "deriveKey P password (drawnSalt g) = Inr key"
    and "aes_gcm_encrypt P key (drawnIv g) DEFAULT_TAG_LENGTH data = Inr (ciphertext env)"
    and "iv env = bufferToHex (drawnIv g)" and "salt env = bufferToHex (drawnSalt g)"
    and "g' = (\<lambda>i. g (i + IV_BYTES + SALT_BYTES))"
  using assms unfolding encryptFile_eq
  by (auto split: sum.splits)


subsection \<open>The toy platform\<close>

lemma xor_mask_twice: "map ((\<lambda>b. b XOR m) \<circ> (\<lambda>b. b XOR m)) (data :: byte list) = data"
  by (induction data) (simp_all add: xor.assoc)

lemma toy_aead_correct: "aead_correct toy_platform"
  by (auto simp: aead_correct_def toy_platform_def toy_encrypt_def toy_decrypt_def Let_def
      xor_mask_twice DEFAULT_TAG_LENGTH_def)

lemma toy_aead_tag_appended: "aead_tag_appended toy_platform"
  by (auto simp: aead_tag_appended_def toy_platform_def toy_encrypt_def)

lemma toy_platform_simps:
  "digest_sha256 toy_platform = toy_digest" "pbkdf2_sha256 toy_platform = toy_pbkdf2"
  "aes_gcm_encrypt toy_platform = toy_encrypt" "aes_gcm_decrypt toy_platform = toy_decrypt"
  "toLowerCase toy_platform = toy_toLowerCase"
  by (simp_all add: toy_platform_def)

lemma constants_simps:
  "SALT_BYTES = 16" "IV_BYTES = 12" "DEFAULT_TAG_LENGTH = 128" "PBKDF2_ITERATIONS = 100000"
  by (simp_all add: SALT_BYTES_def IV_BYTES_def DEFAULT_TAG_LENGTH_def PBKDF2_ITERATIONS_def)

lemma stringToBytes_pw: "stringToBytes (js ''pw'') = [112, 119]"
  by code_simp

lemma drawn_zero: "drawnSalt (\<lambda>i. 0) = replicate 16 0" "drawnIv (\<lambda>i. 0) = replicate 12 0"
  unfolding drawnSalt_def drawnIv_def constants_simps map_replicate_const length_upt by simp_all

lemma toy_encrypt_example:
  "encryptFile toy_platform (\<lambda>i. 0) [1, 2, 3] (js ''pw'') =
     (Inr \<lparr>ciphertext = [230, 229, 228] @ replicate 16 238,
           iv = bufferToHex (replicate 12 0), salt = bufferToHex (replicate 16 0),
           fileHash = bufferToHex ([3, 1, 2, 3] @ replicate 28 0)\<rparr>, \<lambda>i. 0)"
  by (simp add: encryptFile_eq drawn_zero hashFile_def deriveKey_def toy_platform_simps
      toy_digest_def toy_pbkdf2_def toy_encrypt_def toy_mask_def toy_checksum_def
      constants_simps stringToBytes_pw sum_list_replicate)

subsection \<open>Round trip\<close>

text \<open>
  Claim C1.  On a platform whose AES-GCM decryption inverts its encryption, whenever
  \<open>encryptFile\<close> returns an envelope for the plaintext \<open>data\<close> and a password,
  \<open>decryptFile\<close> on the envelope's ciphertext, its \<open>iv\<close> and \<open>salt\<close> (both hex)
  and the same password returns exactly \<open>data\<close>.
\<close>

theorem encrypt_decrypt_roundtrip:
  assumes "aead_correct P" and "encryptFile P g data password = (Inr env, g')"
  shows "decryptFile P (ciphertext env) (iv env) (salt env) password = Inr data"
proof -
  from assms(2) obtain key where
    key: "deriveKey P password (drawnSalt g) = Inr key" and
    enc: "aes_gcm_encrypt P key (drawnIv g) DEFAULT_TAG_LENGTH data = Inr (ciphertext env)" and
    hex: "iv env = bufferToHex (drawnIv g)" "salt env = bufferToHex (drawnSalt g)"
    by (rule encryptFile_InrD)
  from assms(1) enc have "aes_gcm_decrypt P key (drawnIv g) DEFAULT_TAG_LENGTH (ciphertext env) = Inr data"
    unfolding aead_correct_def by blast
  then show ?thesis
    by (simp add: decryptFile_def hex hexToBytes_bufferToHex key)
qed

theorem encrypt_decrypt_roundtrip_witness:
  "aead_correct toy_platform \<and>
   decryptFile toy_platform ([230, 229, 228] @ replicate 16 238)
     (bufferToHex (replicate 12 0)) (bufferToHex (replicate 16 0)) (js ''pw'') = Inr [1, 2, 3]"
  using encrypt_decrypt_roundtrip [OF toy_aead_correct toy_encrypt_example] toy_aead_correct by simp


section \<open>What \<open>hexToBytes\<close> returns\<close>

lemma take2_drop:
  assumes "Suc i < length s"
  shows "take 2 (drop i s) = [s ! i, s ! Suc i]"
proof -
  have "drop i s = s ! i # drop (Suc i) s"
    using assms by (simp add: Cons_nth_drop_Suc)
  moreover have "drop (Suc i) s = s ! Suc i # drop (Suc (Suc i)) s"
    using assms by (simp add: Cons_nth_drop_Suc)
  ultimately show ?thesis by (simp add: numeral_2_eq_2)
qed

text \<open>
  Claim C9, as amended.  \<open>hexToBytes\<close> never fails and returns \<open>length s div 2\<close>
  bytes for every string \<open>s\<close>, of odd length or with characters that are no hex
  digits.  Byte \<open>k\<close> is what \<open>parseInt\<close> reads from the two code units at \<open>2 * k\<close>,
  modulo 256 (\<open>groupByte\<close>): two hex digits give their value; a hex digit followed by
  something else gives the value of that digit; white space or \<open>+\<close> before a hex
  digit gives the digit; \<open>-\<close> before a hex digit gives its negation modulo 256; every
  other group gives 0.  So malformed hex yields a garbled array and no error, but a
  group that is not valid hex is not always 0.
\<close>

theorem hexToBytes_groups:
  "length (hexToBytes s) = length s div 2 \<and>
   (\<forall>k < length s div 2. hexToBytes s ! k = groupByte (s ! (2 * k)) (s ! (2 * k + 1)))"
proof (intro conjI allI impI)
  show "length (hexToBytes s) = length s div 2"
    by (simp add: hexToBytes_eq_map)
next
  fix k assume k: "k < length s div 2"
  then have "Suc (2 * k) < length s" by arith
  then have "substr s (2 * k) 2 = [s ! (2 * k), s ! (2 * k + 1)]"
    by (simp add: substr_def take2_drop)
  with k show "hexToBytes s ! k = groupByte (s ! (2 * k)) (s ! (2 * k + 1))"
    by (simp add: hexToBytes_eq_map decodeGroup_def parseInt16_pair)
qed

lemma js_1g: "js ''1gzz-f'' = [0x31, 0x67, 0x7A, 0x7A, 0x2D, 0x66]"
  by (simp add: js_def)

theorem hexToBytes_groups_witness:
  "length (hexToBytes (js ''1gzz-f'')) = 3 \<and> hexToBytes (js ''1gzz-f'') ! 0 = 1 \<and>
   hexToBytes (js ''1gzz-f'') ! 1 = 0 \<and> hexToBytes (js ''1gzz-f'') ! 2 = 241"
proof -
  let ?s = "js ''1gzz-f''"
  have len: "length ?s div 2 = 3" by (simp add: js_def)
  from hexToBytes_groups [of ?s]
  have L: "length (hexToBytes ?s) = 3"
    and G: "\<And>k. k < 3 \<Longrightarrow> hexToBytes ?s ! k = groupByte (?s ! (2 * k)) (?s ! (2 * k + 1))"
    by (simp_all add: len)
  have g0: "groupByte 0x31 0x67 = 1" and g1: "groupByte 0x7A 0x7A = 0"
    and g2: "groupByte 0x2D 0x66 = 241"
    by (simp_all add: groupByte_def isHexDigit_def hexDigitValue_def isStrWhiteSpaceChar_def)
  show ?thesis
    using L G [of 0] G [of 1] G [of 2] by (simp add: js_1g g0 g1 g2)
qed

text \<open>
  The group \<open>1g\<close> is not valid hexadecimal, and it is decoded to 1, not to 0.
\<close>

theorem hexToBytes_invalid_group_counterexample:
  "\<not> list_all isHexDigit (js ''1g'') \<and> hexToBytes (js ''1g'') = [1]"
  by (simp add: js_def isHexDigit_def hexToBytes_Cons2 parseInt16_pair groupByte_def
      hexDigitValue_def)


section \<open>The envelope\<close>

lemma length_bufferToHex: "length (bufferToHex bs) = 2 * length bs"
  by (induction bs) (simp_all add: bufferToHex_def byte_hex)

lemma bufferToHex_inject: "bufferToHex xs = bufferToHex ys \<longleftrightarrow> xs = ys"
  using hexToBytes_bufferToHex by metis

lemma drawn_one_zero:
  "drawnSalt one_zero_tape = 1 # replicate 15 0" "drawnIv one_zero_tape = replicate 12 0"
proof -
  have "[0..<16] = 0 # [1..<16]" by (simp add: upt_conv_Cons)
  moreover have "map one_zero_tape [1..<16] = map (\<lambda>i. 0) [1..<16]"
    by (rule map_cong) (auto simp: one_zero_tape_def)
  ultimately show "drawnSalt one_zero_tape = 1 # replicate 15 0"
    unfolding drawnSalt_def constants_simps
    by (simp only: list.map map_replicate_const length_upt) (simp add: one_zero_tape_def)
  have "map one_zero_tape [16..<16 + 12] = map (\<lambda>i. 0) [16..<16 + 12]"
    by (rule map_cong) (auto simp: one_zero_tape_def)
  then show "drawnIv one_zero_tape = replicate 12 0"
    unfolding drawnIv_def constants_simps
    by (simp only: map_replicate_const length_upt) simp
qed

lemma toy_encrypt_A:
  "fst (encryptFile toy_platform zero_tape [1, 2, 3] (js ''pw'')) = Inr toy_envelope_A"
  by (simp add: zero_tape_def toy_encrypt_example toy_envelope_A_def)

lemma toy_encrypt_B:
  "fst (encryptFile toy_platform one_zero_tape [1, 2, 3] (js ''pw'')) = Inr toy_envelope_B"
  by (simp add: encryptFile_eq drawn_one_zero hashFile_def deriveKey_def toy_platform_simps
      toy_digest_def toy_pbkdf2_def toy_encrypt_def toy_mask_def toy_checksum_def
      constants_simps stringToBytes_pw sum_list_replicate toy_envelope_B_def)

text \<open>
  Claim C10.  On a platform whose AES-GCM appends the tag of the chosen length, the
  \<open>ciphertext\<close> of the envelope that \<open>encryptFile\<close> returns for \<open>n\<close> bytes of
  plaintext has \<open>n + 16\<close> bytes (the module leaves the tag length at its default of
  128 bits), and the envelope consists of the four fields \<open>ciphertext\<close>, \<open>iv\<close>,
  \<open>salt\<close> and \<open>fileHash\<close>, with no tag field.
\<close>

theorem envelope_ciphertext_length:
  assumes "aead_tag_appended P" and "encryptFile P g data password = (Inr env, g')"
  shows "length (ciphertext env) = length data + 16 \<and>
         env = \<lparr>ciphertext = ciphertext env, iv = bufferToHex (drawnIv g),
                salt = bufferToHex (drawnSalt g), fileHash = fileHash env\<rparr>"
proof -
  from assms(2) obtain key where
    enc: "aes_gcm_encrypt P key (drawnIv g) DEFAULT_TAG_LENGTH data = Inr (ciphertext env)" and
    hex: "iv env = bufferToHex (drawnIv g)" "salt env = bufferToHex (drawnSalt g)"
    by (rule encryptFile_InrD)
  from assms(1) enc have "length (ciphertext env) = length data + DEFAULT_TAG_LENGTH div 8"
    unfolding aead_tag_appended_def by blast
  moreover have "env = \<lparr>ciphertext = ciphertext env, iv = iv env, salt = salt env,
      fileHash = fileHash env\<rparr>"
    by simp
  ultimately show ?thesis
    by (simp add: DEFAULT_TAG_LENGTH_def hex)
qed

theorem envelope_ciphertext_length_witness:
  "aead_tag_appended toy_platform \<and>
   length ([230, 229, 228] @ replicate 16 238 :: byte list) = length [1, 2, 3 :: byte] + 16"
  using envelope_ciphertext_length [OF toy_aead_tag_appended toy_encrypt_example]
    toy_aead_tag_appended
  by simp


text \<open>
  Claim C5, as amended.  Every call of \<open>encryptFile\<close> reads 16 bytes for the salt and
  then 12 bytes for the IV from the generator and leaves it past them; the envelope
  carries their hex (32 and 24 characters).  Two calls on the same plaintext and
  password have different \<open>salt\<close> exactly when their 16 salt bytes differ and different
  \<open>iv\<close> exactly when their 12 IV bytes differ.  The ciphertext is what the platform's
  AES-GCM returns under the key derived from that salt and under that IV; whether two
  ciphertexts differ is left to the primitive.
\<close>

theorem encryptFile_fresh_salt_iv:
  assumes "encryptFile P g1 data password = (Inr e1, g1')"
    and "encryptFile P g2 data password = (Inr e2, g2')"
  shows "salt e1 = bufferToHex (drawnSalt g1) \<and> length (salt e1) = 32
       \<and> iv e1 = bufferToHex (drawnIv g1) \<and> length (iv e1) = 24
       \<and> g1' = (\<lambda>i. g1 (i + IV_BYTES + SALT_BYTES))
       \<and> (salt e1 \<noteq> salt e2 \<longleftrightarrow> drawnSalt g1 \<noteq> drawnSalt g2)
       \<and> (iv e1 \<noteq> iv e2 \<longleftrightarrow> drawnIv g1 \<noteq> drawnIv g2)
       \<and> (\<exists>key. deriveKey P password (drawnSalt g1) = Inr key
              \<and> aes_gcm_encrypt P key (drawnIv g1) DEFAULT_TAG_LENGTH data = Inr (ciphertext e1))"
proof -
  from assms(1) obtain k1 where
    k1: "deriveKey P password (drawnSalt g1) = Inr k1"
      "aes_gcm_encrypt P k1 (drawnIv g1) DEFAULT_TAG_LENGTH data = Inr (ciphertext e1)" and
    h1: "iv e1 = bufferToHex (drawnIv g1)" "salt e1 = bufferToHex (drawnSalt g1)" and
    g1: "g1' = (\<lambda>i. g1 (i + IV_BYTES + SALT_BYTES))"
    by (rule encryptFile_InrD)
  from assms(2) obtain k2 where
    h2: "iv e2 = bufferToHex (drawnIv g2)" "salt e2 = bufferToHex (drawnSalt g2)"
    by (rule encryptFile_InrD)
  have "length (salt e1) = 32" "length (iv e1) = 24"
    by (simp_all add: h1 length_bufferToHex drawnSalt_def drawnIv_def constants_simps)
  with k1 h1 h2 g1 show ?thesis
    by (simp add: bufferToHex_inject)
qed

theorem encryptFile_fresh_salt_iv_witness:
  "salt toy_envelope_A \<noteq> salt toy_envelope_B \<and> iv toy_envelope_A = iv toy_envelope_B
   \<and> length (salt toy_envelope_A) = 32 \<and> length (iv toy_envelope_A) = 24"
proof -
  have A: "encryptFile toy_platform zero_tape [1, 2, 3] (js ''pw'') =
      (Inr toy_envelope_A, snd (encryptFile toy_platform zero_tape [1, 2, 3] (js ''pw'')))"
    using toy_encrypt_A by (simp add: prod_eq_iff)
  have B: "encryptFile toy_platform one_zero_tape [1, 2, 3] (js ''pw'') =
      (Inr toy_envelope_B, snd (encryptFile toy_platform one_zero_tape [1, 2, 3] (js ''pw'')))"
    using toy_encrypt_B by (simp add: prod_eq_iff)
  have "replicate 16 (0::byte) = 0 # replicate 15 0"
    using replicate_Suc [of 15 "0::byte"] by simp
  then have ne: "drawnSalt zero_tape \<noteq> drawnSalt one_zero_tape"
    and eq: "drawnIv zero_tape = drawnIv one_zero_tape"
    by (simp_all add: zero_tape_def drawn_zero drawn_one_zero)
  note T = encryptFile_fresh_salt_iv [OF A B]
  from T have "length (salt toy_envelope_A) = 32" "length (iv toy_envelope_A) = 24"
    by blast+
  moreover from T ne have "salt toy_envelope_A \<noteq> salt toy_envelope_B" by blast
  moreover from T eq have "iv toy_envelope_A = iv toy_envelope_B" by blast
  ultimately show ?thesis by blast
qed

text \<open>
  Two calls whose randomness differs in the salt bytes only return the same \<open>iv\<close>.
\<close>

theorem different_randomness_same_iv_counterexample:
  "zero_tape \<noteq> one_zero_tape
   \<and> fst (encryptFile toy_platform zero_tape [1, 2, 3] (js ''pw'')) = Inr toy_envelope_A
   \<and> fst (encryptFile toy_platform one_zero_tape [1, 2, 3] (js ''pw'')) = Inr toy_envelope_B
   \<and> iv toy_envelope_A = iv toy_envelope_B"
proof -
  have "zero_tape 0 \<noteq> one_zero_tape 0"
    by (simp add: zero_tape_def one_zero_tape_def)
  then have "zero_tape \<noteq> one_zero_tape" by metis
  then show ?thesis
    by (simp add: toy_encrypt_A toy_encrypt_B toy_envelope_A_def toy_envelope_B_def)
qed


section \<open>Decryption\<close>

lemma hexToBytes_zz: "hexToBytes (js ''zz'') = [0]" "hexToBytes (js ''0g'') = [0]"
  by (simp_all add: js_def hexToBytes_Cons2 parseInt16_pair groupByte_def isHexDigit_def
      hexDigitValue_def isStrWhiteSpaceChar_def)

lemma stringToBytes_lone_surrogates:
  "stringToBytes [0xD800] = [239, 191, 189]" "stringToBytes [0xDC00] = [239, 191, 189]"
  by (simp_all add: stringToBytes_def loneUnit_def isLeadSurrogate_def isTrailSurrogate_def
      utf8Encode_def)

lemma toy_decrypt_simps:
  "toy_decrypt key ivBytes 128 (bs @ replicate 16 t) =
     (if t = toy_checksum key ivBytes (map (\<lambda>b. b XOR toy_mask key ivBytes) bs)
      then Inr (map (\<lambda>b. b XOR toy_mask key ivBytes) bs) else Inl OperationError)"
  by (auto simp: toy_decrypt_def Let_def)

lemma toy_decrypt_malformed:
  "decryptFile toy_platform ([230, 229, 228] @ replicate 16 238) (js ''0g'') (js ''zz'') (js ''pw'')
     = Inr [1, 2, 3]"
  by (simp add: decryptFile_def hexToBytes_zz deriveKey_def toy_platform_simps toy_pbkdf2_def
      constants_simps stringToBytes_pw toy_decrypt_simps toy_mask_def toy_checksum_def
      sum_list_replicate del: append.simps)

lemma toy_decrypt_malformed_rejected:
  "decryptFile toy_platform ([] @ replicate 16 0) (js ''0g'') (js ''zz'') (js ''pw'')
     = Inl OperationError"
  by (simp add: decryptFile_def hexToBytes_zz deriveKey_def toy_platform_simps toy_pbkdf2_def
      constants_simps stringToBytes_pw toy_decrypt_simps toy_mask_def toy_checksum_def
      sum_list_replicate del: append.simps)

lemma stringToBytes_pW: "stringToBytes (js ''pW'') = [112, 87]"
  by code_simp

lemma toy_encrypt_C:
  "fst (encryptFile toy_platform zero_tape [1, 2, 3] [0xD800]) = Inr toy_envelope_C"
  by (simp add: encryptFile_eq zero_tape_def drawn_zero hashFile_def deriveKey_def
      toy_platform_simps toy_digest_def toy_pbkdf2_def toy_encrypt_def toy_mask_def
      toy_checksum_def constants_simps stringToBytes_lone_surrogates sum_list_replicate
      toy_envelope_C_def)

lemma sum_list_update_word:
  "j < length xs \<Longrightarrow> sum_list (xs[j := y]) = sum_list xs - xs ! j + (y :: byte)"
proof (induction xs arbitrary: j)
  case Nil
  then show ?case by simp
next
  case (Cons x xs)
  then show ?case by (cases j) simp_all
qed

lemma bit_mask_nonzero: "push_bit (i mod 8) (1 :: byte) \<noteq> 0"
proof -
  have "i mod 8 \<in> {0, 1, 2, 3, 4, 5, 6, 7}" by simp arith
  then show ?thesis by (auto simp: push_bit_eq_mult)
qed

lemma xor_changes: "m \<noteq> 0 \<Longrightarrow> (x :: byte) XOR m \<noteq> x"
  by (metis xor.left_commute xor_self_eq xor.right_neutral)

lemma toy_decrypt_tag:
  "length tag = 16 \<Longrightarrow>
   toy_decrypt key ivBytes 128 (bs @ tag) =
     (if tag = replicate 16 (toy_checksum key ivBytes (map (\<lambda>b. b XOR toy_mask key ivBytes) bs))
      then Inr (map (\<lambda>b. b XOR toy_mask key ivBytes) bs) else Inl OperationError)"
  by (auto simp: toy_decrypt_def Let_def)

lemma OperationError_name: "errName OperationError = js ''OperationError''"
  by (simp add: OperationError_def)

lemma toy_detects_bitflip: "aead_detects_bitflip toy_platform"
  unfolding aead_detects_bitflip_def
proof (intro allI impI, elim conjE)
  fix key ivBytes :: "byte list" and data c :: "byte list" and i :: nat
  assume enc: "aes_gcm_encrypt toy_platform key ivBytes DEFAULT_TAG_LENGTH data = Inr c"
    and i: "i < 8 * length c"
  define m where "m = toy_mask key ivBytes"
  define t where "t = toy_checksum key ivBytes data"
  define b :: byte where "b = push_bit (i mod 8) 1"
  define j where "j = i div 8"
  have b: "b \<noteq> 0" unfolding b_def by (rule bit_mask_nonzero)
  have c: "c = map (\<lambda>x. x XOR m) data @ replicate 16 t"
    using enc by (simp add: toy_platform_simps toy_encrypt_def constants_simps m_def t_def)
  have j: "j < length data + 16" using i by (simp add: c j_def)
  have flip: "flipBit c i = c[j := (c ! j) XOR b]"
    by (simp add: flipBit_def j_def b_def)
  have "toy_decrypt key ivBytes 128 (flipBit c i) = Inl OperationError"
  proof (cases "j < length data")
    case True
    let ?body = "(map (\<lambda>x. x XOR m) data)[j := (data ! j XOR m) XOR b]"
    have f: "flipBit c i = ?body @ replicate 16 t"
      using True by (subst flip) (simp add: c list_update_append nth_append)
    have dec: "map (\<lambda>x. x XOR m) ?body = data[j := data ! j XOR b]"
      using True
      by (simp add: map_update xor.assoc xor.commute xor.left_commute map_idI)
    have "sum_list (data[j := data ! j XOR b]) = sum_list data - data ! j + (data ! j XOR b)"
      using True by (rule sum_list_update_word)
    moreover have "data ! j XOR b \<noteq> data ! j" using b by (rule xor_changes)
    ultimately have "toy_checksum key ivBytes (data[j := data ! j XOR b]) \<noteq> t"
      by (simp add: toy_checksum_def t_def)
    then show ?thesis
      unfolding f by (simp add: toy_decrypt_simps m_def [symmetric] dec del: append.simps)
  next
    case False
    let ?tag = "(replicate 16 t)[j - length data := t XOR b]"
    have k: "j - length data < 16" using j False by simp
    have f: "flipBit c i = map (\<lambda>x. x XOR m) data @ ?tag"
      using False k by (subst flip) (simp add: c list_update_append nth_append)
    have "?tag ! (j - length data) = t XOR b" using k by simp
    moreover have "t XOR b \<noteq> t" using b by (rule xor_changes)
    moreover have "replicate 16 t ! (j - length data) = t" using k by simp
    ultimately have ne: "?tag \<noteq> replicate 16 t" by metis
    have "map (\<lambda>b. b XOR m) (map (\<lambda>x. x XOR m) data) = data"
      by (simp add: xor.assoc map_idI)
    then show ?thesis
      unfolding f using ne
      by (simp add: toy_decrypt_tag m_def [symmetric] t_def [symmetric] del: append.simps)
  qed
  then show "\<exists>e. aes_gcm_decrypt toy_platform key ivBytes DEFAULT_TAG_LENGTH (flipBit c i) = Inl e
      \<and> errName e = js ''OperationError''"
    by (simp add: toy_platform_simps constants_simps OperationError_name)
qed

lemma toy_deriveKey_zero_salt:
  "deriveKey toy_platform V (replicate 16 0) = Inr (sum_list (stringToBytes V) # replicate 31 0)"
  by (simp add: deriveKey_def toy_platform_simps toy_pbkdf2_def sum_list_replicate)

lemma toy_flips:
  "flipBit ([230, 229, 228] @ replicate 16 238) 0 = [231, 229, 228] @ replicate 16 238"
  "flipBit ([230, 229, 228] @ replicate 16 238) 151 = [230, 229, 228] @ replicate 15 238 @ [110]"
  by code_simp+

text \<open>
  Claim C7, as amended.  The crypto module validates neither salt nor IV.  \<open>deriveKey\<close>
  hands a salt of any length to PBKDF2.  \<open>decryptFile\<close> decodes both hex strings with
  \<open>hexToBytes\<close>, which never fails, so a malformed string is treated exactly as the
  well-formed hex of the bytes it decodes to; the derivation and the decryption then
  run, and the only failures are those of the platform's PBKDF2 and AES-GCM.
\<close>

theorem decryptFile_no_input_validation:
  "deriveKey P password saltBytes =
     pbkdf2_sha256 P (stringToBytes password) saltBytes PBKDF2_ITERATIONS 256
   \<and> decryptFile P c ivHex saltHex password =
       decryptFile P c (bufferToHex (hexToBytes ivHex)) (bufferToHex (hexToBytes saltHex)) password
   \<and> (decryptFile P c ivHex saltHex password = Inl e \<longrightarrow>
        pbkdf2_sha256 P (stringToBytes password) (hexToBytes saltHex) PBKDF2_ITERATIONS 256 = Inl e
        \<or> (\<exists>key. pbkdf2_sha256 P (stringToBytes password) (hexToBytes saltHex)
                    PBKDF2_ITERATIONS 256 = Inr key
                  \<and> aes_gcm_decrypt P key (hexToBytes ivHex) DEFAULT_TAG_LENGTH c = Inl e))"
  by (auto simp: deriveKey_def decryptFile_def hexToBytes_bufferToHex Let_def split: sum.splits)

theorem decryptFile_no_input_validation_witness:
  "decryptFile toy_platform (replicate 16 0) (js ''0g'') (js ''zz'') (js ''pw'') = Inl OperationError
   \<and> (toy_pbkdf2 [112, 119] [0] 100000 256 = Inl OperationError
      \<or> (\<exists>key. toy_pbkdf2 [112, 119] [0] 100000 256 = Inr key
              \<and> toy_decrypt key [0] 128 (replicate 16 0) = Inl OperationError))"
  using decryptFile_no_input_validation
    [of toy_platform "js ''pw''" "[]" "replicate 16 0" "js ''0g''" "js ''zz''" OperationError]
    toy_decrypt_malformed_rejected
  by (simp add: hexToBytes_zz toy_platform_simps constants_simps stringToBytes_pw)

text \<open>
  The salt \<open>zz\<close> and the IV \<open>0g\<close> are no hex and decode to one byte each; the
  decryption runs and returns a plaintext.
\<close>

theorem malformed_salt_iv_accepted_counterexample:
  "hexToBytes (js ''zz'') = [0] \<and> hexToBytes (js ''0g'') = [0]
   \<and> decryptFile toy_platform ([230, 229, 228] @ replicate 16 238) (js ''0g'') (js ''zz'') (js ''pw'')
       = Inr [1, 2, 3]"
  using toy_decrypt_malformed by (simp add: hexToBytes_zz)


text \<open>
  Claim C2, as amended.  On a platform whose AES-GCM rejects every ciphertext it
  produced once a single bit is flipped, and for every envelope that \<open>encryptFile\<close>
  returned: \<open>decryptFile\<close> on the stored ciphertext with any one bit flipped, with the
  envelope's \<open>iv\<close> and \<open>salt\<close> and the encryption password, raises the
  \<open>OperationError\<close> of the tag verification and returns no plaintext.  For any
  password and any ciphertext, \<open>decryptFile\<close> presents the salt and IV of the
  encryption to the platform and returns its answer unchanged: when the tag does not
  verify under the key derived from the password given it raises that error, and a
  plaintext it returns is one that the platform's verified decryption returned, never
  a partial or altered one.  Not every password different from the encryption password
  is rejected: two passwords with the same UTF-8 encoding are not told apart.
\<close>

theorem decryptFile_authentication:
  assumes "aead_detects_bitflip P" and "encryptFile P g data W = (Inr env, g')"
  shows "(i < 8 * length (ciphertext env) \<longrightarrow>
            (\<exists>e. decryptFile P (flipBit (ciphertext env) i) (iv env) (salt env) W = Inl e
                 \<and> errName e = js ''OperationError''))
       \<and> (deriveKey P W' (drawnSalt g) = Inr key'
          \<and> aes_gcm_decrypt P key' (drawnIv g) DEFAULT_TAG_LENGTH c' = Inl e'
          \<longrightarrow> decryptFile P c' (iv env) (salt env) W' = Inl e')
       \<and> (decryptFile P c' (iv env) (salt env) W' = Inr p
          \<longrightarrow> (\<exists>k. deriveKey P W' (drawnSalt g) = Inr k
                 \<and> aes_gcm_decrypt P k (drawnIv g) DEFAULT_TAG_LENGTH c' = Inr p))
       \<and> (stringToBytes W' = stringToBytes W
          \<longrightarrow> decryptFile P c' (iv env) (salt env) W' = decryptFile P c' (iv env) (salt env) W)"
proof -
  from assms(2) obtain key where
    key: "deriveKey P W (drawnSalt g) = Inr key" and
    enc: "aes_gcm_encrypt P key (drawnIv g) DEFAULT_TAG_LENGTH data = Inr (ciphertext env)" and
    hex: "iv env = bufferToHex (drawnIv g)" "salt env = bufferToHex (drawnSalt g)"
    by (rule encryptFile_InrD)
  have D: "decryptFile P x (iv env) (salt env) V =
      (case deriveKey P V (drawnSalt g) of
         Inl y \<Rightarrow> Inl y
       | Inr k \<Rightarrow> aes_gcm_decrypt P k (drawnIv g) DEFAULT_TAG_LENGTH x)" for V x
    by (simp add: decryptFile_def hex hexToBytes_bufferToHex)
  have "\<exists>e. decryptFile P (flipBit (ciphertext env) i) (iv env) (salt env) W = Inl e
                 \<and> errName e = js ''OperationError''"
    if "i < 8 * length (ciphertext env)"
  proof -
    from assms(1) enc that
    have "\<exists>e. aes_gcm_decrypt P key (drawnIv g) DEFAULT_TAG_LENGTH (flipBit (ciphertext env) i) = Inl e
        \<and> errName e = js ''OperationError''"
      unfolding aead_detects_bitflip_def by blast
    then show ?thesis by (simp add: D key)
  qed
  moreover have "deriveKey P W' (drawnSalt g) = Inr key'
          \<and> aes_gcm_decrypt P key' (drawnIv g) DEFAULT_TAG_LENGTH c' = Inl e'
          \<longrightarrow> decryptFile P c' (iv env) (salt env) W' = Inl e'"
    by (simp add: D)
  moreover have "decryptFile P c' (iv env) (salt env) W' = Inr p
          \<longrightarrow> (\<exists>k. deriveKey P W' (drawnSalt g) = Inr k
                 \<and> aes_gcm_decrypt P k (drawnIv g) DEFAULT_TAG_LENGTH c' = Inr p)"
    by (cases "deriveKey P W' (drawnSalt g)") (simp_all add: D)
  moreover have "stringToBytes W' = stringToBytes W
          \<longrightarrow> decryptFile P c' (iv env) (salt env) W' = decryptFile P c' (iv env) (salt env) W"
    by (simp add: D deriveKey_def)
  ultimately show ?thesis by blast
qed

theorem decryptFile_authentication_witness:
  "aead_detects_bitflip toy_platform
   \<and> (\<exists>e. decryptFile toy_platform ([231, 229, 228] @ replicate 16 238)
          (bufferToHex (replicate 12 0)) (bufferToHex (replicate 16 0)) (js ''pw'') = Inl e
        \<and> errName e = js ''OperationError'')
   \<and> (\<exists>e. decryptFile toy_platform ([230, 229, 228] @ replicate 15 238 @ [110])
          (bufferToHex (replicate 12 0)) (bufferToHex (replicate 16 0)) (js ''pw'') = Inl e
        \<and> errName e = js ''OperationError'')
   \<and> decryptFile toy_platform ([230, 229, 228] @ replicate 16 238)
     (bufferToHex (replicate 12 0)) (bufferToHex (replicate 16 0)) (js ''pW'') = Inl OperationError"
proof -
  note T = decryptFile_authentication [OF toy_detects_bitflip toy_encrypt_example]
  have len: "length ([230, 229, 228] @ replicate 16 238 :: byte list) = 19" by simp
  from T [of 0, THEN conjunct1] len
  have f0: "\<exists>e. decryptFile toy_platform ([231, 229, 228] @ replicate 16 238)
          (bufferToHex (replicate 12 0)) (bufferToHex (replicate 16 0)) (js ''pw'') = Inl e
        \<and> errName e = js ''OperationError''"
    by (simp add: toy_flips del: append.simps)
  from T [of 151, THEN conjunct1] len
  have f1: "\<exists>e. decryptFile toy_platform ([230, 229, 228] @ replicate 15 238 @ [110])
          (bufferToHex (replicate 12 0)) (bufferToHex (replicate 16 0)) (js ''pw'') = Inl e
        \<and> errName e = js ''OperationError''"
    by (simp add: toy_flips del: append.simps)
  have k2: "deriveKey toy_platform (js ''pW'') (drawnSalt (\<lambda>i. 0)) = Inr (199 # replicate 31 0)"
    by (simp add: toy_deriveKey_zero_salt drawn_zero stringToBytes_pW)
  have d2: "aes_gcm_decrypt toy_platform (199 # replicate 31 0)
      (drawnIv (\<lambda>i. 0)) DEFAULT_TAG_LENGTH ([230, 229, 228] @ replicate 16 238) = Inl OperationError"
    by (simp add: toy_platform_simps constants_simps drawn_zero toy_decrypt_simps toy_mask_def
        toy_checksum_def sum_list_replicate del: append.simps)
  from T [of _ "js ''pW''" _ "[230, 229, 228] @ replicate 16 238" OperationError,
      THEN conjunct2, THEN conjunct1] k2 d2
  have "decryptFile toy_platform ([230, 229, 228] @ replicate 16 238)
     (bufferToHex (replicate 12 0)) (bufferToHex (replicate 16 0)) (js ''pW'') = Inl OperationError"
    by simp
  with f0 f1 toy_detects_bitflip show ?thesis by blast
qed

text \<open>
  The passwords \<open>0xD800\<close> and \<open>0xDC00\<close> (lone surrogates) are different strings with
  the same UTF-8 encoding: what the first encrypts, the second decrypts.
\<close>

theorem wrong_password_accepted_counterexample:
  "[0xDC00] \<noteq> [0xD800 :: code_unit]
   \<and> fst (encryptFile toy_platform zero_tape [1, 2, 3] [0xD800]) = Inr toy_envelope_C
   \<and> decryptFile toy_platform (ciphertext toy_envelope_C) (iv toy_envelope_C)
         (salt toy_envelope_C) [0xDC00] = Inr [1, 2, 3]"
proof -
  have "decryptFile toy_platform (ciphertext toy_envelope_C) (iv toy_envelope_C)
         (salt toy_envelope_C) [0xDC00] = Inr [1, 2, 3]"
    by (simp add: toy_envelope_C_def decryptFile_def hexToBytes_bufferToHex deriveKey_def
        toy_platform_simps toy_pbkdf2_def constants_simps stringToBytes_lone_surrogates
        toy_decrypt_simps toy_mask_def toy_checksum_def sum_list_replicate del: append.simps)
  then show ?thesis by (simp add: toy_encrypt_C)
qed


section \<open>Registration and login\<close>

lemma authSalt_sites:
  "login_authSalt P email = register_authSalt P email"
  "decrypt_authSalt P (Some email) = register_authSalt P email"
  by (simp_all add: login_authSalt_def register_authSalt_def decrypt_authSalt_def)

lemma toy_normalize:
  "trim (toy_toLowerCase (js ''User@Example.com'')) = js ''user@example.com''"
  "trim (toy_toLowerCase (js ''user@example.com '')) = js ''user@example.com''"
  by code_simp+

lemma stringToBytes_user: "stringToBytes (js ''user@example.com'') =
    [117, 115, 101, 114, 64, 101, 120, 97, 109, 112, 108, 101, 46, 99, 111, 109]"
  by code_simp



lemma toy_email:
  "trim (js '' a@b.cd'') = js ''a@b.cd''" "validateEmail (js ''a@b.cd'')"
  "trim (toy_toLowerCase (js ''a@b.cd'')) = js ''a@b.cd''"
  "stringToBytes (js ''a@b.cd'') = [97, 64, 98, 46, 99, 100]"
  by code_simp+

lemma toy_passwords:
  "stringToBytes (js ''0123456789abcdefX'') =
     [48, 49, 50, 51, 52, 53, 54, 55, 56, 57, 97, 98, 99, 100, 101, 102, 88]"
  "stringToBytes (js ''1023456789abcdefX'') =
     [49, 48, 50, 51, 52, 53, 54, 55, 56, 57, 97, 98, 99, 100, 101, 102, 88]"
  "length (js ''0123456789abcdefX'') = 17" "length (js ''1023456789abcdefX'') = 17"
  "stringToBytes (js ''wrongpassword'') =
     [119, 114, 111, 110, 103, 112, 97, 115, 115, 119, 111, 114, 100]"
  "length (js ''wrongpassword'') = 13"
  by code_simp+

lemma toy_register_authSalt:
  "register_authSalt toy_platform (js ''a@b.cd'') = Inr toy_authSalt"
  by (simp add: register_authSalt_def toy_platform_simps toy_email toy_digest_def
      toy_authSalt_def)

lemma toy_pbkdf2_passwords:
  "toy_pbkdf2 (stringToBytes (js ''0123456789abcdefX'')) toy_authSalt PBKDF2_ITERATIONS 256 =
     Inr (184 # replicate 31 0)"
  "toy_pbkdf2 (stringToBytes (js ''1023456789abcdefX'')) toy_authSalt PBKDF2_ITERATIONS 256 =
     Inr (184 # replicate 31 0)"
  "toy_pbkdf2 (stringToBytes (js ''wrongpassword'')) toy_authSalt PBKDF2_ITERATIONS 256 =
     Inr (158 # replicate 31 0)"
  by (simp_all add: toy_pbkdf2_def toy_passwords toy_authSalt_def sum_list_replicate)

lemma toy_hashPassword:
  "hashPassword toy_platform (js ''0123456789abcdefX'') toy_authSalt = Inr toy_passwordHash"
  "hashPassword toy_platform (js ''1023456789abcdefX'') toy_authSalt = Inr toy_passwordHash"
  "hashPassword toy_platform (js ''wrongpassword'') toy_authSalt = Inr toy_wrongHash"
  by (simp_all add: hashPassword_def toy_platform_simps toy_pbkdf2_passwords
      toy_passwordHash_def toy_wrongHash_def)

lemma toy_digest_email:
  "digest_sha256 toy_platform (stringToBytes (trim (toLowerCase toy_platform (js ''a@b.cd'')))) =
     Inr ([6, 97, 64, 98, 46, 99, 100] @ replicate 25 0)"
  "take 16 ([6, 97, 64, 98, 46, 99, 100] @ replicate 25 0 :: byte list) = toy_authSalt"
  by (simp_all add: toy_platform_simps toy_email toy_digest_def toy_authSalt_def)

lemma register_authSalt_digest:
  "register_authSalt P email = Inr a \<longleftrightarrow>
     (\<exists>d. digest_sha256 P (stringToBytes (trim (toLowerCase P email))) = Inr d \<and> a = take 16 d)"
  by (auto simp: register_authSalt_def split: sum.splits)

lemma hashPassword_pbkdf2:
  "hashPassword P pw a = Inr h \<longleftrightarrow>
     (\<exists>bits. pbkdf2_sha256 P (stringToBytes pw) a PBKDF2_ITERATIONS 256 = Inr bits
        \<and> h = bufferToHex bits)"
  by (auto simp: hashPassword_def split: sum.splits)

lemma hashPassword_cong:
  "pbkdf2_sha256 P (stringToBytes pw) a PBKDF2_ITERATIONS 256 =
   pbkdf2_sha256 P (stringToBytes pw') a PBKDF2_ITERATIONS 256 \<Longrightarrow>
   hashPassword P pw a = hashPassword P pw' a"
  by (simp add: hashPassword_def)

lemma success_not_error: "js ''error'' \<noteq> js ''success''"
  by (simp add: js_def)

lemma login_submit_success:
  assumes "login_submit P net st0 dis ev pw = (st, sent, Toast msg (js ''success''))"
  shows "\<exists>a h. login_authSalt P (trim ev) = Inr a \<and> hashPassword P pw a = Inr h
           \<and> currentEmail st = Some (trim ev) \<and> currentPasswordHash st = Some h"
  using assms success_not_error
  by (auto simp: login_submit_def login_def Let_def saveSession_def
      split: if_splits sum.splits prod.splits)

lemma register_submit_success:
  assumes "register_submit P net st0 dis ev pw cf = (st, sent, Toast msg (js ''success''))"
  shows "\<exists>a h. register_authSalt P (trim ev) = Inr a \<and> hashPassword P pw a = Inr h
           \<and> currentEmail st = Some (trim ev) \<and> currentPasswordHash st = Some h"
  using assms success_not_error
  by (auto simp: register_submit_def register_def Let_def saveSession_def
      split: if_splits sum.splits prod.splits)

lemma toy_register:
  "register_submit toy_platform toy_net empty_session False (js '' a@b.cd'')
      (js ''0123456789abcdefX'') (js ''0123456789abcdefX'') =
     (toy_session, [register_request (js ''a@b.cd'') toy_passwordHash (bufferToHex toy_authSalt)],
      Toast (js ''Account created successfully!'') (js ''success''))"
  by (simp add: register_submit_def toy_email toy_passwords toy_register_authSalt
      toy_hashPassword register_def toy_net_def saveSession_def empty_session_def
      toy_session_def parseResponse_def Let_def)

text \<open>
  Claim C3.  For every e-mail string the authentication salt is the first 16 bytes of
  the SHA-256 digest of the lower-cased, then trimmed e-mail.  The register handler, the
  login handler and \<open>performDecrypt\<close> compute the same function, so e-mails with the
  same normalised form give byte-identical salts in all three; the salt has 16 bytes
  whenever the digest has at least 16.  In particular, after a successful registration
  or login the download flow derives, from the session's e-mail, the salt that the
  registration and the login derive from the e-mail typed.
\<close>

theorem authSalt_deterministic:
  "register_authSalt P email =
     (case digest_sha256 P (stringToBytes (trim (toLowerCase P email))) of
        Inl e \<Rightarrow> Inl e
      | Inr d \<Rightarrow> Inr (take 16 d))
   \<and> login_authSalt P email = register_authSalt P email
   \<and> decrypt_authSalt P (Some email) = register_authSalt P email
   \<and> (trim (toLowerCase P email') = trim (toLowerCase P email) \<longrightarrow>
        login_authSalt P email' = register_authSalt P email
        \<and> decrypt_authSalt P (Some email') = register_authSalt P email)
   \<and> (digest_sha256 P (stringToBytes (trim (toLowerCase P email))) = Inr d \<and> 16 \<le> length d \<longrightarrow>
        (\<exists>s. register_authSalt P email = Inr s \<and> length s = 16))
   \<and> (register_submit P net st0 dis ev pw cf = (st, sent, Toast msg (js ''success''))
        \<or> login_submit P net st0 dis ev pw = (st, sent, Toast msg (js ''success'')) \<longrightarrow>
        (\<exists>a. register_authSalt P (trim ev) = Inr a \<and> login_authSalt P (trim ev) = Inr a
           \<and> decrypt_authSalt P (currentEmail st) = Inr a))"
proof -
  have flows: "\<exists>a. register_authSalt P (trim ev) = Inr a \<and> login_authSalt P (trim ev) = Inr a
           \<and> decrypt_authSalt P (currentEmail st) = Inr a"
    if "register_submit P net st0 dis ev pw cf = (st, sent, Toast msg (js ''success''))
        \<or> login_submit P net st0 dis ev pw = (st, sent, Toast msg (js ''success''))"
  proof -
    from that obtain a where "register_authSalt P (trim ev) = Inr a"
      "currentEmail st = Some (trim ev)"
      using login_submit_success [of P net st0 dis ev pw st sent msg]
        register_submit_success [of P net st0 dis ev pw cf st sent msg]
      by (auto simp: authSalt_sites)
    then show ?thesis by (simp add: authSalt_sites)
  qed
  have sites: "register_authSalt P email =
     (case digest_sha256 P (stringToBytes (trim (toLowerCase P email))) of
        Inl e \<Rightarrow> Inl e
      | Inr d \<Rightarrow> Inr (take 16 d))
   \<and> login_authSalt P email = register_authSalt P email
   \<and> decrypt_authSalt P (Some email) = register_authSalt P email
   \<and> (trim (toLowerCase P email') = trim (toLowerCase P email) \<longrightarrow>
        login_authSalt P email' = register_authSalt P email
        \<and> decrypt_authSalt P (Some email') = register_authSalt P email)
   \<and> (digest_sha256 P (stringToBytes (trim (toLowerCase P email))) = Inr d \<and> 16 \<le> length d \<longrightarrow>
        (\<exists>s. register_authSalt P email = Inr s \<and> length s = 16))"
    by (simp add: login_authSalt_def register_authSalt_def decrypt_authSalt_def)
  from sites flows show ?thesis by blast
qed

theorem authSalt_deterministic_witness:
  "login_authSalt toy_platform (js ''user@example.com '') =
     register_authSalt toy_platform (js ''User@Example.com'')
   \<and> decrypt_authSalt toy_platform (Some (js ''user@example.com '')) =
     register_authSalt toy_platform (js ''User@Example.com'')
   \<and> (\<exists>s. register_authSalt toy_platform (js ''User@Example.com'') = Inr s \<and> length s = 16)
   \<and> decrypt_authSalt toy_platform (currentEmail toy_session) =
     register_authSalt toy_platform (trim (js '' a@b.cd''))"
proof -
  note T = authSalt_deterministic [of toy_platform "js ''User@Example.com''"
      "js ''user@example.com ''"
      "16 # [117, 115, 101, 114, 64, 101, 120, 97, 109, 112, 108, 101, 46, 99, 111, 109] @ replicate 15 0"
      toy_net empty_session False "js '' a@b.cd''" "js ''0123456789abcdefX''"
      "js ''0123456789abcdefX''" toy_session
      "[register_request (js ''a@b.cd'') toy_passwordHash (bufferToHex toy_authSalt)]"
      "js ''Account created successfully!''"]
  have n: "trim (toLowerCase toy_platform (js ''user@example.com '')) =
      trim (toLowerCase toy_platform (js ''User@Example.com''))"
    by (simp add: toy_platform_simps toy_normalize)
  have d: "digest_sha256 toy_platform
      (stringToBytes (trim (toLowerCase toy_platform (js ''User@Example.com'')))) =
      Inr (16 # [117, 115, 101, 114, 64, 101, 120, 97, 109, 112, 108, 101, 46, 99, 111, 109] @ replicate 15 0)"
    by (simp add: toy_platform_simps toy_normalize stringToBytes_user toy_digest_def)
  from T n d toy_register show ?thesis by auto
qed




section \<open>Upload and download\<close>

lemma toy_hash_sums:
  "sum_list (stringToBytes toy_passwordHash) = 58"
  "sum_list (stringToBytes toy_wrongHash) = 62"
  by code_simp+

lemma toy_deriveKey_file:
  "deriveKey toy_platform toy_passwordHash (replicate 16 0) = Inr toy_fileKey"
  "deriveKey toy_platform toy_wrongHash (replicate 16 0) = Inr (62 # replicate 31 0)"
  by (simp_all add: toy_deriveKey_zero_salt toy_hash_sums toy_fileKey_def)

lemma toy_fileKey_sums:
  "toy_mask toy_fileKey (replicate 12 0) = 58"
  "toy_checksum toy_fileKey (replicate 12 0) data = sum_list data + 59"
  "toy_mask (62 # replicate 31 0) (replicate 12 0) = 62"
  "toy_checksum (62 # replicate 31 0) (replicate 12 0) data = sum_list data + 63"
  by (simp_all add: toy_mask_def toy_checksum_def toy_fileKey_def sum_list_replicate)

lemma toy_decryptFile_stored:
  "decryptFile toy_platform (bs @ replicate 16 t) (bufferToHex (replicate 12 0))
     (bufferToHex (replicate 16 0)) toy_passwordHash =
     (if t = sum_list (map (\<lambda>b. b XOR 58) bs) + 59 then Inr (map (\<lambda>b. b XOR 58) bs)
      else Inl OperationError)"
  "decryptFile toy_platform (bs @ replicate 16 t) (bufferToHex (replicate 12 0))
     (bufferToHex (replicate 16 0)) toy_wrongHash =
     (if t = sum_list (map (\<lambda>b. b XOR 62) bs) + 63 then Inr (map (\<lambda>b. b XOR 62) bs)
      else Inl OperationError)"
  by (simp_all add: decryptFile_def hexToBytes_bufferToHex toy_deriveKey_file toy_platform_simps
      constants_simps toy_decrypt_simps toy_fileKey_sums del: append.simps)

lemma toy_storage_simps:
  "getMetadata (Some (toy_storage blob)) email filename = Inr toy_metadata"
  "getFileBlob (Some (toy_storage blob)) email filename = Inr blob"
  by (simp_all add: getMetadata_def getFileBlob_def toy_storage_def)

lemma toy_digest_files:
  "digest_sha256 toy_platform [9, 9] = Inr ([2, 9, 9] @ replicate 29 0)"
  "digest_sha256 toy_platform [1, 2, 3] = Inr ([3, 1, 2, 3] @ replicate 28 0)"
  by (simp_all add: toy_platform_simps toy_digest_def)

lemma toy_hashFile: "hashFile toy_platform [9, 9] = Inr (bufferToHex ([2, 9, 9] @ replicate 29 0))"
  "hashFile toy_platform [1, 2, 3] = Inr (bufferToHex ([3, 1, 2, 3] @ replicate 28 0))"
  by (simp_all add: hashFile_def toy_digest_files)

lemma handleFileUpload_stored:
  assumes "fst (snd (snd (handleFileUpload P prov g st f))) = Some (blob, md)"
  shows "\<exists>env g'. encryptFile P g (file_bytes f) (jsToString (currentPasswordHash st)) = (Inr env, g')
           \<and> blob = ciphertext env
           \<and> md = \<lparr>original_name = file_name f, original_size = length (file_bytes f),
                    meta_iv = iv env, meta_salt = salt env, file_hash = fileHash env\<rparr>"
  using assms
  by (auto simp: handleFileUpload_def Let_def split: if_splits sum.splits prod.splits)

lemma handleFileUpload_encrypted:
  assumes "\<not> isUploading st" "length (file_bytes f) \<le> 50 * 1024 * 1024"
    "encryptFile P g (file_bytes f) (jsToString (currentPasswordHash st)) = (Inr env, g')"
  shows "fst (snd (snd (handleFileUpload P prov g st f))) =
     Some (ciphertext env,
       \<lparr>original_name = file_name f, original_size = length (file_bytes f),
        meta_iv = iv env, meta_salt = salt env, file_hash = fileHash env\<rparr>)"
  using assms
  by (simp add: handleFileUpload_def Let_def split: sum.splits)

lemma decrypt_enteredHash_pbkdf2:
  assumes "currentEmail st = Some em"
    "digest_sha256 P (stringToBytes (trim (toLowerCase P em))) = Inr d"
    "pbkdf2_sha256 P (stringToBytes pw) (take 16 d) PBKDF2_ITERATIONS 256 = Inr bits"
  shows "decrypt_enteredHash P st pw = Inr (bufferToHex bits)"
  using assms
  by (simp add: decrypt_enteredHash_def decrypt_authSalt_def hashPassword_def)

lemma performDecrypt_uses_enteredHash:
  assumes "pw \<noteq> []" "getMetadata prov (currentEmail st) fn = Inr md"
    "getFileBlob prov (currentEmail st) fn = Inr c" "decrypt_enteredHash P st pw = Inr h"
  shows "performDecrypt P prov st fn pw =
     (case decryptFile P c (meta_iv md) (meta_salt md) h of
        Inl err \<Rightarrow> decryptError err
      | Inr decrypted \<Rightarrow>
          (case hashFile P decrypted of
             Inl err \<Rightarrow> decryptError err
           | Inr computedHash \<Rightarrow>
               if computedHash \<noteq> file_hash md then decryptError (Error (js ''INTEGRITY_FAIL''))
               else Downloaded (orDefault (Some (original_name md)) fn) decrypted))"
  using assms by (simp add: performDecrypt_def)

lemma performDecrypt_Downloaded:
  assumes "performDecrypt P prov st fn pw = Downloaded name p"
  shows "\<exists>md c h d. pw \<noteq> [] \<and> getMetadata prov (currentEmail st) fn = Inr md
         \<and> getFileBlob prov (currentEmail st) fn = Inr c
         \<and> decrypt_enteredHash P st pw = Inr h
         \<and> decryptFile P c (meta_iv md) (meta_salt md) h = Inr p
         \<and> digest_sha256 P p = Inr d \<and> bufferToHex d = file_hash md
         \<and> name = orDefault (Some (original_name md)) fn"
  using assms
  by (auto simp: performDecrypt_def decryptError_def hashFile_def split: if_splits sum.splits)

lemma toy_encrypt_file:
  "encryptFile toy_platform zero_tape [1, 2, 3] toy_passwordHash =
     (Inr \<lparr>ciphertext = [59, 56, 57] @ replicate 16 65,
           iv = bufferToHex (replicate 12 0), salt = bufferToHex (replicate 16 0),
           fileHash = bufferToHex ([3, 1, 2, 3] @ replicate 28 0)\<rparr>,
      \<lambda>i. zero_tape (i + IV_BYTES + SALT_BYTES))"
  by (simp add: encryptFile_eq zero_tape_def drawn_zero toy_hashFile toy_deriveKey_file
      toy_platform_simps toy_encrypt_def toy_fileKey_sums constants_simps)

lemma toy_names:
  "js ''0123456789abcdefX'' \<noteq> []" "js ''wrongpassword'' \<noteq> []"
  "orDefault (Some (js ''a.txt'')) (js ''a.txt'') = js ''a.txt''"
  by (simp_all add: orDefault_def js_def)

lemma OperationError_shown:
  "decryptError OperationError =
     ErrorShown (js ''Decryption Failed'')
       (js ''The password you entered is incorrect, or the file is corrupted. Please check your password and try again.'')"
  by (simp add: decryptError_def OperationError_def js_def)

lemma decrypt_enteredHash_InrD:
  assumes "decrypt_enteredHash P st pw = Inr h"
  obtains em s bits where "currentEmail st = Some em"
    and "digest_sha256 P (stringToBytes (trim (toLowerCase P em))) = Inr s"
    and "pbkdf2_sha256 P (stringToBytes pw) (take 16 s) PBKDF2_ITERATIONS 256 = Inr bits"
    and "h = bufferToHex bits"
  using assms
  by (auto simp: decrypt_enteredHash_def decrypt_authSalt_def hashPassword_def
      split: option.splits sum.splits)

text \<open>
  Claim C4.  The password argument of \<open>encryptFile\<close> and \<open>decryptFile\<close> is the
  authentication token, not the raw password.  An upload that is not refused (no upload
  running, at most 50 MiB) and whose encryption succeeds hands to the storage provider
  the ciphertext and the metadata of the envelope of \<open>encryptFile\<close> called with the
  session's stored password hash; conversely, whatever reaches the provider is such an
  envelope, encrypted under the key that the platform's PBKDF2 derives from the UTF-8
  bytes of that stored hash.  A download, for any password typed into the dialog,
  decrypts with the hex of the platform's PBKDF2 of the typed password under the first
  16 bytes of the SHA-256 digest of the session's normalised e-mail.  After a
  successful login or registration with a password, the session's stored hash is that
  same value computed from that password.
\<close>

theorem file_encryption_uses_auth_token:
  "(\<not> isUploading st \<and> length (file_bytes f) \<le> 50 * 1024 * 1024
      \<and> encryptFile P g (file_bytes f) (jsToString (currentPasswordHash st)) = (Inr env, g') \<longrightarrow>
      fst (snd (snd (handleFileUpload P prov g st f))) =
        Some (ciphertext env,
          \<lparr>original_name = file_name f, original_size = length (file_bytes f),
           meta_iv = iv env, meta_salt = salt env, file_hash = fileHash env\<rparr>))
   \<and> (fst (snd (snd (handleFileUpload P prov g st f))) = Some (blob, md) \<longrightarrow>
      (\<exists>env2 g2 key. encryptFile P g (file_bytes f) (jsToString (currentPasswordHash st)) = (Inr env2, g2)
         \<and> blob = ciphertext env2
         \<and> md = \<lparr>original_name = file_name f, original_size = length (file_bytes f),
                  meta_iv = iv env2, meta_salt = salt env2, file_hash = fileHash env2\<rparr>
         \<and> pbkdf2_sha256 P (stringToBytes (jsToString (currentPasswordHash st))) (drawnSalt g)
              PBKDF2_ITERATIONS 256 = Inr key
         \<and> aes_gcm_encrypt P key (drawnIv g) DEFAULT_TAG_LENGTH (file_bytes f) = Inr blob))
   \<and> (pw \<noteq> [] \<and> getMetadata prov (currentEmail st) fn = Inr md'
        \<and> getFileBlob prov (currentEmail st) fn = Inr c
        \<and> currentEmail st = Some em
        \<and> digest_sha256 P (stringToBytes (trim (toLowerCase P em))) = Inr d
        \<and> pbkdf2_sha256 P (stringToBytes pw) (take 16 d) PBKDF2_ITERATIONS 256 = Inr bits \<longrightarrow>
        performDecrypt P prov st fn pw =
          (case decryptFile P c (meta_iv md') (meta_salt md') (bufferToHex bits) of
             Inl err \<Rightarrow> decryptError err
           | Inr decrypted \<Rightarrow>
               (case hashFile P decrypted of
                  Inl err \<Rightarrow> decryptError err
                | Inr computedHash \<Rightarrow>
                    if computedHash \<noteq> file_hash md'
                    then decryptError (Error (js ''INTEGRITY_FAIL''))
                    else Downloaded (orDefault (Some (original_name md')) fn) decrypted)))
   \<and> (login_submit P net st0 dis ev pw = (st, sent, Toast msg (js ''success''))
        \<or> register_submit P net st0 dis ev pw cf = (st, sent, Toast msg (js ''success'')) \<longrightarrow>
        (\<exists>d1 bits1. currentEmail st = Some (trim ev)
           \<and> digest_sha256 P (stringToBytes (trim (toLowerCase P (trim ev)))) = Inr d1
           \<and> pbkdf2_sha256 P (stringToBytes pw) (take 16 d1) PBKDF2_ITERATIONS 256 = Inr bits1
           \<and> currentPasswordHash st = Some (bufferToHex bits1)
           \<and> jsToString (currentPasswordHash st) = bufferToHex bits1))"
proof -
  have u1: "\<not> isUploading st \<and> length (file_bytes f) \<le> 50 * 1024 * 1024
      \<and> encryptFile P g (file_bytes f) (jsToString (currentPasswordHash st)) = (Inr env, g') \<longrightarrow>
      fst (snd (snd (handleFileUpload P prov g st f))) =
        Some (ciphertext env,
          \<lparr>original_name = file_name f, original_size = length (file_bytes f),
           meta_iv = iv env, meta_salt = salt env, file_hash = fileHash env\<rparr>)"
    using handleFileUpload_encrypted [of st f P g env g' prov] by blast
  have u2: "fst (snd (snd (handleFileUpload P prov g st f))) = Some (blob, md) \<longrightarrow>
      (\<exists>env2 g2 key. encryptFile P g (file_bytes f) (jsToString (currentPasswordHash st)) = (Inr env2, g2)
         \<and> blob = ciphertext env2
         \<and> md = \<lparr>original_name = file_name f, original_size = length (file_bytes f),
                  meta_iv = iv env2, meta_salt = salt env2, file_hash = fileHash env2\<rparr>
         \<and> pbkdf2_sha256 P (stringToBytes (jsToString (currentPasswordHash st))) (drawnSalt g)
              PBKDF2_ITERATIONS 256 = Inr key
         \<and> aes_gcm_encrypt P key (drawnIv g) DEFAULT_TAG_LENGTH (file_bytes f) = Inr blob)"
  proof
    assume "fst (snd (snd (handleFileUpload P prov g st f))) = Some (blob, md)"
    from handleFileUpload_stored [OF this] obtain env2 g2 where
      e: "encryptFile P g (file_bytes f) (jsToString (currentPasswordHash st)) = (Inr env2, g2)"
      and b: "blob = ciphertext env2"
      and m: "md = \<lparr>original_name = file_name f, original_size = length (file_bytes f),
                  meta_iv = iv env2, meta_salt = salt env2, file_hash = fileHash env2\<rparr>"
      by blast
    from e obtain key where
      "deriveKey P (jsToString (currentPasswordHash st)) (drawnSalt g) = Inr key"
      "aes_gcm_encrypt P key (drawnIv g) DEFAULT_TAG_LENGTH (file_bytes f) = Inr (ciphertext env2)"
      by (rule encryptFile_InrD)
    with e b m show "\<exists>env2 g2 key.
         encryptFile P g (file_bytes f) (jsToString (currentPasswordHash st)) = (Inr env2, g2)
         \<and> blob = ciphertext env2
         \<and> md = \<lparr>original_name = file_name f, original_size = length (file_bytes f),
                  meta_iv = iv env2, meta_salt = salt env2, file_hash = fileHash env2\<rparr>
         \<and> pbkdf2_sha256 P (stringToBytes (jsToString (currentPasswordHash st))) (drawnSalt g)
              PBKDF2_ITERATIONS 256 = Inr key
         \<and> aes_gcm_encrypt P key (drawnIv g) DEFAULT_TAG_LENGTH (file_bytes f) = Inr blob"
      by (auto simp: deriveKey_def)
  qed
  have dl: "pw \<noteq> [] \<and> getMetadata prov (currentEmail st) fn = Inr md'
        \<and> getFileBlob prov (currentEmail st) fn = Inr c
        \<and> currentEmail st = Some em
        \<and> digest_sha256 P (stringToBytes (trim (toLowerCase P em))) = Inr d
        \<and> pbkdf2_sha256 P (stringToBytes pw) (take 16 d) PBKDF2_ITERATIONS 256 = Inr bits \<longrightarrow>
        performDecrypt P prov st fn pw =
          (case decryptFile P c (meta_iv md') (meta_salt md') (bufferToHex bits) of
             Inl err \<Rightarrow> decryptError err
           | Inr decrypted \<Rightarrow>
               (case hashFile P decrypted of
                  Inl err \<Rightarrow> decryptError err
                | Inr computedHash \<Rightarrow>
                    if computedHash \<noteq> file_hash md'
                    then decryptError (Error (js ''INTEGRITY_FAIL''))
                    else Downloaded (orDefault (Some (original_name md')) fn) decrypted))"
  proof
    assume a: "pw \<noteq> [] \<and> getMetadata prov (currentEmail st) fn = Inr md'
        \<and> getFileBlob prov (currentEmail st) fn = Inr c
        \<and> currentEmail st = Some em
        \<and> digest_sha256 P (stringToBytes (trim (toLowerCase P em))) = Inr d
        \<and> pbkdf2_sha256 P (stringToBytes pw) (take 16 d) PBKDF2_ITERATIONS 256 = Inr bits"
    then have "decrypt_enteredHash P st pw = Inr (bufferToHex bits)"
      using decrypt_enteredHash_pbkdf2 [of st em P d pw bits] by blast
    with a show "performDecrypt P prov st fn pw =
          (case decryptFile P c (meta_iv md') (meta_salt md') (bufferToHex bits) of
             Inl err \<Rightarrow> decryptError err
           | Inr decrypted \<Rightarrow>
               (case hashFile P decrypted of
                  Inl err \<Rightarrow> decryptError err
                | Inr computedHash \<Rightarrow>
                    if computedHash \<noteq> file_hash md'
                    then decryptError (Error (js ''INTEGRITY_FAIL''))
                    else Downloaded (orDefault (Some (original_name md')) fn) decrypted))"
      using performDecrypt_uses_enteredHash [of pw prov st fn md' c P "bufferToHex bits"]
      by blast
  qed
  have ss: "login_submit P net st0 dis ev pw = (st, sent, Toast msg (js ''success''))
        \<or> register_submit P net st0 dis ev pw cf = (st, sent, Toast msg (js ''success'')) \<longrightarrow>
        (\<exists>d1 bits1. currentEmail st = Some (trim ev)
           \<and> digest_sha256 P (stringToBytes (trim (toLowerCase P (trim ev)))) = Inr d1
           \<and> pbkdf2_sha256 P (stringToBytes pw) (take 16 d1) PBKDF2_ITERATIONS 256 = Inr bits1
           \<and> currentPasswordHash st = Some (bufferToHex bits1)
           \<and> jsToString (currentPasswordHash st) = bufferToHex bits1)"
  proof
    assume "login_submit P net st0 dis ev pw = (st, sent, Toast msg (js ''success''))
        \<or> register_submit P net st0 dis ev pw cf = (st, sent, Toast msg (js ''success''))"
    then obtain a k where "register_authSalt P (trim ev) = Inr a" "hashPassword P pw a = Inr k"
      "currentEmail st = Some (trim ev)" "currentPasswordHash st = Some k"
      using login_submit_success [of P net st0 dis ev pw st sent msg]
        register_submit_success [of P net st0 dis ev pw cf st sent msg]
      by (auto simp: authSalt_sites)
    then show "\<exists>d1 bits1. currentEmail st = Some (trim ev)
           \<and> digest_sha256 P (stringToBytes (trim (toLowerCase P (trim ev)))) = Inr d1
           \<and> pbkdf2_sha256 P (stringToBytes pw) (take 16 d1) PBKDF2_ITERATIONS 256 = Inr bits1
           \<and> currentPasswordHash st = Some (bufferToHex bits1)
           \<and> jsToString (currentPasswordHash st) = bufferToHex bits1"
      by (auto simp: register_authSalt_digest hashPassword_pbkdf2 jsToString_def)
  qed
  from u1 u2 dl ss show ?thesis by (intro conjI)
qed


theorem file_encryption_uses_auth_token_witness:
  "fst (snd (snd (handleFileUpload toy_platform (Some (toy_storage [])) zero_tape toy_session
      toy_file))) = Some ([59, 56, 57] @ replicate 16 65, toy_metadata)
   \<and> performDecrypt toy_platform (Some (toy_storage ([59, 56, 57] @ replicate 16 65)))
        toy_session (js ''a.txt'') (js ''0123456789abcdefX'') = Downloaded (js ''a.txt'') [1, 2, 3]
   \<and> performDecrypt toy_platform (Some (toy_storage ([59, 56, 57] @ replicate 16 65)))
        toy_session (js ''a.txt'') (js ''wrongpassword'') =
        ErrorShown (js ''Decryption Failed'')
          (js ''The password you entered is incorrect, or the file is corrupted. Please check your password and try again.'')
   \<and> currentEmail toy_session = Some (js ''a@b.cd'')
   \<and> currentPasswordHash toy_session = Some (bufferToHex (184 # replicate 31 0))
   \<and> aes_gcm_encrypt toy_platform toy_fileKey (replicate 12 0) DEFAULT_TAG_LENGTH [1, 2, 3] =
        Inr ([59, 56, 57] @ replicate 16 65)"
proof -
  let ?stored = "[59, 56, 57] @ replicate 16 65 :: byte list"
  let ?d = "[6, 97, 64, 98, 46, 99, 100] @ replicate 25 0 :: byte list"
  have dg: "digest_sha256 toy_platform
      (stringToBytes (trim (toLowerCase toy_platform (js ''a@b.cd'')))) = Inr ?d"
    by (rule toy_digest_email)
  have pb: "pbkdf2_sha256 toy_platform (stringToBytes (js ''0123456789abcdefX''))
      (take 16 ?d) PBKDF2_ITERATIONS 256 = Inr (184 # replicate 31 0)"
    "pbkdf2_sha256 toy_platform (stringToBytes (js ''wrongpassword''))
      (take 16 ?d) PBKDF2_ITERATIONS 256 = Inr (158 # replicate 31 0)"
    by (simp_all only: toy_digest_email toy_platform_simps toy_pbkdf2_passwords)
  have em: "currentEmail toy_session = Some (js ''a@b.cd'')"
    by (simp add: toy_session_def)
  have p1: "\<not> isUploading toy_session \<and> length (file_bytes toy_file) \<le> 50 * 1024 * 1024
      \<and> encryptFile toy_platform zero_tape (file_bytes toy_file)
          (jsToString (currentPasswordHash toy_session)) =
        (Inr \<lparr>ciphertext = ?stored,
           iv = bufferToHex (replicate 12 0), salt = bufferToHex (replicate 16 0),
           fileHash = bufferToHex ([3, 1, 2, 3] @ replicate 28 0)\<rparr>,
         \<lambda>i. zero_tape (i + IV_BYTES + SALT_BYTES))"
    by (simp add: toy_session_def toy_file_def jsToString_def toy_encrypt_file
        del: append.simps)
  from file_encryption_uses_auth_token [where P = toy_platform and prov = "Some (toy_storage [])"
      and g = zero_tape and st = toy_session and f = toy_file,
      THEN conjunct1, rule_format, OF p1]
  have up: "fst (snd (snd (handleFileUpload toy_platform (Some (toy_storage [])) zero_tape
      toy_session toy_file))) = Some (?stored, toy_metadata)"
    by (simp add: toy_file_def toy_metadata_def del: append.simps)
  have p3: "js ''0123456789abcdefX'' \<noteq> []
      \<and> getMetadata (Some (toy_storage ?stored)) (currentEmail toy_session) (js ''a.txt'') =
          Inr toy_metadata
      \<and> getFileBlob (Some (toy_storage ?stored)) (currentEmail toy_session) (js ''a.txt'') =
          Inr ?stored
      \<and> currentEmail toy_session = Some (js ''a@b.cd'')
      \<and> digest_sha256 toy_platform
          (stringToBytes (trim (toLowerCase toy_platform (js ''a@b.cd'')))) = Inr ?d
      \<and> pbkdf2_sha256 toy_platform (stringToBytes (js ''0123456789abcdefX''))
          (take 16 ?d) PBKDF2_ITERATIONS 256 = Inr (184 # replicate 31 0)"
    using dg pb em toy_names toy_storage_simps by blast
  have p3w: "js ''wrongpassword'' \<noteq> []
      \<and> getMetadata (Some (toy_storage ?stored)) (currentEmail toy_session) (js ''a.txt'') =
          Inr toy_metadata
      \<and> getFileBlob (Some (toy_storage ?stored)) (currentEmail toy_session) (js ''a.txt'') =
          Inr ?stored
      \<and> currentEmail toy_session = Some (js ''a@b.cd'')
      \<and> digest_sha256 toy_platform
          (stringToBytes (trim (toLowerCase toy_platform (js ''a@b.cd'')))) = Inr ?d
      \<and> pbkdf2_sha256 toy_platform (stringToBytes (js ''wrongpassword''))
          (take 16 ?d) PBKDF2_ITERATIONS 256 = Inr (158 # replicate 31 0)"
    using dg pb em toy_names toy_storage_simps by blast
  have fold: "bufferToHex (184 # replicate 31 0) = toy_passwordHash"
    "bufferToHex (158 # replicate 31 0) = toy_wrongHash"
    by (simp_all only: toy_passwordHash_def toy_wrongHash_def)
  from file_encryption_uses_auth_token [where P = toy_platform, THEN conjunct2, THEN conjunct2,
      THEN conjunct1, rule_format, OF p3]
  have good: "performDecrypt toy_platform (Some (toy_storage ?stored)) toy_session (js ''a.txt'')
      (js ''0123456789abcdefX'') = Downloaded (js ''a.txt'') [1, 2, 3]"
    by (simp add: fold toy_metadata_def toy_decryptFile_stored toy_hashFile toy_names
        del: append.simps)
  from file_encryption_uses_auth_token [where P = toy_platform, THEN conjunct2, THEN conjunct2,
      THEN conjunct1, rule_format, OF p3w]
  have bad: "performDecrypt toy_platform (Some (toy_storage ?stored)) toy_session (js ''a.txt'')
      (js ''wrongpassword'') =
        ErrorShown (js ''Decryption Failed'')
          (js ''The password you entered is incorrect, or the file is corrupted. Please check your password and try again.'')"
    by (simp add: fold toy_metadata_def toy_decryptFile_stored OperationError_shown
        del: append.simps)
  from file_encryption_uses_auth_token [where P = toy_platform and st = toy_session
      and pw = "js ''0123456789abcdefX''" and ev = "js '' a@b.cd''",
      THEN conjunct2, THEN conjunct2, THEN conjunct2, rule_format, OF disjI2, OF toy_register]
  obtain d1 bits1 where
    s1: "digest_sha256 toy_platform
        (stringToBytes (trim (toLowerCase toy_platform (trim (js '' a@b.cd''))))) = Inr d1"
    and s2: "pbkdf2_sha256 toy_platform (stringToBytes (js ''0123456789abcdefX''))
        (take 16 d1) PBKDF2_ITERATIONS 256 = Inr bits1"
    and s3: "currentPasswordHash toy_session = Some (bufferToHex bits1)"
    by blast
  from s1 have "d1 = ?d"
    by (simp only: toy_email toy_digest_email sum.inject)
  with s2 pb have "bits1 = 184 # replicate 31 0"
    by (simp only: sum.inject)
  with s3 have tok: "currentPasswordHash toy_session = Some (bufferToHex (184 # replicate 31 0))"
    by (simp only:)
  from file_encryption_uses_auth_token [where P = toy_platform and prov = "Some (toy_storage [])"
      and g = zero_tape and st = toy_session and f = toy_file and blob = ?stored
      and md = toy_metadata, THEN conjunct2, THEN conjunct1, rule_format, OF up]
  obtain key where
    k1: "pbkdf2_sha256 toy_platform (stringToBytes (jsToString (currentPasswordHash toy_session)))
        (drawnSalt zero_tape) PBKDF2_ITERATIONS 256 = Inr key"
    and k2: "aes_gcm_encrypt toy_platform key (drawnIv zero_tape) DEFAULT_TAG_LENGTH
        (file_bytes toy_file) = Inr ?stored"
    by blast
  have "pbkdf2_sha256 toy_platform (stringToBytes toy_passwordHash) (replicate 16 0)
      PBKDF2_ITERATIONS 256 = Inr toy_fileKey"
    using toy_deriveKey_file(1) by (simp add: deriveKey_def)
  with k1 have "key = toy_fileKey"
    by (simp add: toy_session_def jsToString_def zero_tape_def drawn_zero)
  with k2 have enc: "aes_gcm_encrypt toy_platform toy_fileKey (replicate 12 0) DEFAULT_TAG_LENGTH
      [1, 2, 3] = Inr ?stored"
    by (simp add: zero_tape_def drawn_zero toy_file_def del: append.simps)
  from up good bad em tok enc show ?thesis by (intro conjI)
qed

text \<open>
  Claim C6.  In the download flow a plaintext is delivered only if \<open>decryptFile\<close>,
  called with the hash recomputed from the typed password, succeeded and the hex of the
  platform's SHA-256 digest of that plaintext equals the stored \<open>file_hash\<close>; and when
  both hold, that plaintext is delivered.  When decryption succeeds and the hex digest
  differs from the stored one, the plaintext is not delivered and
  \<open>Integrity Check Failed\<close> is shown; in particular, when the stored \<open>file_hash\<close> is
  the hex of the original's digest, every substituted envelope whose plaintext has
  another digest is reported so.  When the platform rejects the tag with an
  \<open>OperationError\<close>, \<open>Decryption Failed\<close> is shown, a different report.
\<close>

theorem download_integrity_check:
  "(performDecrypt P prov st fn pw = Downloaded name p \<longrightarrow>
      (\<exists>md1 c1 em1 s1 bits1 d1.
           getMetadata prov (currentEmail st) fn = Inr md1
         \<and> getFileBlob prov (currentEmail st) fn = Inr c1
         \<and> currentEmail st = Some em1
         \<and> digest_sha256 P (stringToBytes (trim (toLowerCase P em1))) = Inr s1
         \<and> pbkdf2_sha256 P (stringToBytes pw) (take 16 s1) PBKDF2_ITERATIONS 256 = Inr bits1
         \<and> decryptFile P c1 (meta_iv md1) (meta_salt md1) (bufferToHex bits1) = Inr p
         \<and> digest_sha256 P p = Inr d1 \<and> bufferToHex d1 = file_hash md1))
   \<and> (pw \<noteq> [] \<and> getMetadata prov (currentEmail st) fn = Inr md
        \<and> getFileBlob prov (currentEmail st) fn = Inr c
        \<and> currentEmail st = Some em
        \<and> digest_sha256 P (stringToBytes (trim (toLowerCase P em))) = Inr s
        \<and> pbkdf2_sha256 P (stringToBytes pw) (take 16 s) PBKDF2_ITERATIONS 256 = Inr bits
        \<and> decryptFile P c (meta_iv md) (meta_salt md) (bufferToHex bits) = Inr q
        \<and> digest_sha256 P q = Inr dq \<longrightarrow>
        performDecrypt P prov st fn pw =
          (if bufferToHex dq \<noteq> file_hash md
           then ErrorShown (js ''Integrity Check Failed'')
                  (js ''The file appears to have been tampered with. The SHA-256 hash does not match the original. This file should not be trusted.'')
           else Downloaded (orDefault (Some (original_name md)) fn) q))
   \<and> (pw \<noteq> [] \<and> getMetadata prov (currentEmail st) fn = Inr md
        \<and> getFileBlob prov (currentEmail st) fn = Inr c
        \<and> currentEmail st = Some em
        \<and> digest_sha256 P (stringToBytes (trim (toLowerCase P em))) = Inr s
        \<and> pbkdf2_sha256 P (stringToBytes pw) (take 16 s) PBKDF2_ITERATIONS 256 = Inr bits
        \<and> decryptFile P c (meta_iv md) (meta_salt md) (bufferToHex bits) = Inr q
        \<and> digest_sha256 P q = Inr dq
        \<and> file_hash md = bufferToHex d0 \<and> dq \<noteq> d0 \<longrightarrow>
        performDecrypt P prov st fn pw =
          ErrorShown (js ''Integrity Check Failed'')
            (js ''The file appears to have been tampered with. The SHA-256 hash does not match the original. This file should not be trusted.''))
   \<and> (pw \<noteq> [] \<and> getMetadata prov (currentEmail st) fn = Inr md
        \<and> getFileBlob prov (currentEmail st) fn = Inr c
        \<and> currentEmail st = Some em
        \<and> digest_sha256 P (stringToBytes (trim (toLowerCase P em))) = Inr s
        \<and> pbkdf2_sha256 P (stringToBytes pw) (take 16 s) PBKDF2_ITERATIONS 256 = Inr bits
        \<and> decryptFile P c (meta_iv md) (meta_salt md) (bufferToHex bits) = Inl err
        \<and> errName err = js ''OperationError'' \<and> errMessage err \<noteq> js ''INTEGRITY_FAIL'' \<longrightarrow>
        performDecrypt P prov st fn pw =
          ErrorShown (js ''Decryption Failed'')
            (js ''The password you entered is incorrect, or the file is corrupted. Please check your password and try again.''))
   \<and> js ''Integrity Check Failed'' \<noteq> js ''Decryption Failed''"
proof -
  let ?integrity = "ErrorShown (js ''Integrity Check Failed'')
      (js ''The file appears to have been tampered with. The SHA-256 hash does not match the original. This file should not be trusted.'')"
  have c1: "performDecrypt P prov st fn pw = Downloaded name p \<longrightarrow>
      (\<exists>md1 c1 em1 s1 bits1 d1.
           getMetadata prov (currentEmail st) fn = Inr md1
         \<and> getFileBlob prov (currentEmail st) fn = Inr c1
         \<and> currentEmail st = Some em1
         \<and> digest_sha256 P (stringToBytes (trim (toLowerCase P em1))) = Inr s1
         \<and> pbkdf2_sha256 P (stringToBytes pw) (take 16 s1) PBKDF2_ITERATIONS 256 = Inr bits1
         \<and> decryptFile P c1 (meta_iv md1) (meta_salt md1) (bufferToHex bits1) = Inr p
         \<and> digest_sha256 P p = Inr d1 \<and> bufferToHex d1 = file_hash md1)"
  proof
    assume "performDecrypt P prov st fn pw = Downloaded name p"
    from performDecrypt_Downloaded [OF this] obtain md1 c1 h d1 where
      a: "getMetadata prov (currentEmail st) fn = Inr md1"
      "getFileBlob prov (currentEmail st) fn = Inr c1"
      "decryptFile P c1 (meta_iv md1) (meta_salt md1) h = Inr p"
      "digest_sha256 P p = Inr d1" "bufferToHex d1 = file_hash md1"
      and h: "decrypt_enteredHash P st pw = Inr h"
      by blast
    from h obtain em1 s1 bits1 where
      "currentEmail st = Some em1"
      "digest_sha256 P (stringToBytes (trim (toLowerCase P em1))) = Inr s1"
      "pbkdf2_sha256 P (stringToBytes pw) (take 16 s1) PBKDF2_ITERATIONS 256 = Inr bits1"
      "h = bufferToHex bits1"
      by (rule decrypt_enteredHash_InrD)
    with a show "\<exists>md1 c1 em1 s1 bits1 d1.
           getMetadata prov (currentEmail st) fn = Inr md1
         \<and> getFileBlob prov (currentEmail st) fn = Inr c1
         \<and> currentEmail st = Some em1
         \<and> digest_sha256 P (stringToBytes (trim (toLowerCase P em1))) = Inr s1
         \<and> pbkdf2_sha256 P (stringToBytes pw) (take 16 s1) PBKDF2_ITERATIONS 256 = Inr bits1
         \<and> decryptFile P c1 (meta_iv md1) (meta_salt md1) (bufferToHex bits1) = Inr p
         \<and> digest_sha256 P p = Inr d1 \<and> bufferToHex d1 = file_hash md1"
      by blast
  qed
  let ?run = "(case decryptFile P c (meta_iv md) (meta_salt md) (bufferToHex bits) of
         Inl err \<Rightarrow> decryptError err
       | Inr decrypted \<Rightarrow>
           (case hashFile P decrypted of
              Inl err \<Rightarrow> decryptError err
            | Inr computedHash \<Rightarrow>
                if computedHash \<noteq> file_hash md then decryptError (Error (js ''INTEGRITY_FAIL''))
                else Downloaded (orDefault (Some (original_name md)) fn) decrypted))"
  have run: "performDecrypt P prov st fn pw = ?run"
    if "pw \<noteq> []" "getMetadata prov (currentEmail st) fn = Inr md"
      "getFileBlob prov (currentEmail st) fn = Inr c" "currentEmail st = Some em"
      "digest_sha256 P (stringToBytes (trim (toLowerCase P em))) = Inr s"
      "pbkdf2_sha256 P (stringToBytes pw) (take 16 s) PBKDF2_ITERATIONS 256 = Inr bits"
    using that performDecrypt_uses_enteredHash [of pw prov st fn md c P "bufferToHex bits"]
      decrypt_enteredHash_pbkdf2 [of st em P s pw bits]
    by blast
  have integrity: "decryptError (Error (js ''INTEGRITY_FAIL'')) = ?integrity"
    by (simp add: decryptError_def Error_def)
  have c2: "pw \<noteq> [] \<and> getMetadata prov (currentEmail st) fn = Inr md
        \<and> getFileBlob prov (currentEmail st) fn = Inr c
        \<and> currentEmail st = Some em
        \<and> digest_sha256 P (stringToBytes (trim (toLowerCase P em))) = Inr s
        \<and> pbkdf2_sha256 P (stringToBytes pw) (take 16 s) PBKDF2_ITERATIONS 256 = Inr bits
        \<and> decryptFile P c (meta_iv md) (meta_salt md) (bufferToHex bits) = Inr q
        \<and> digest_sha256 P q = Inr dq \<longrightarrow>
        performDecrypt P prov st fn pw =
          (if bufferToHex dq \<noteq> file_hash md then ?integrity
           else Downloaded (orDefault (Some (original_name md)) fn) q)"
  proof
    assume a: "pw \<noteq> [] \<and> getMetadata prov (currentEmail st) fn = Inr md
        \<and> getFileBlob prov (currentEmail st) fn = Inr c
        \<and> currentEmail st = Some em
        \<and> digest_sha256 P (stringToBytes (trim (toLowerCase P em))) = Inr s
        \<and> pbkdf2_sha256 P (stringToBytes pw) (take 16 s) PBKDF2_ITERATIONS 256 = Inr bits
        \<and> decryptFile P c (meta_iv md) (meta_salt md) (bufferToHex bits) = Inr q
        \<and> digest_sha256 P q = Inr dq"
    then have d: "decryptFile P c (meta_iv md) (meta_salt md) (bufferToHex bits) = Inr q"
      "digest_sha256 P q = Inr dq"
      by blast+
    from a have r: "performDecrypt P prov st fn pw = ?run"
      using run by blast
    show "performDecrypt P prov st fn pw =
          (if bufferToHex dq \<noteq> file_hash md then ?integrity
           else Downloaded (orDefault (Some (original_name md)) fn) q)"
      by (simp add: r d integrity hashFile_def)
  qed
  have c3: "pw \<noteq> [] \<and> getMetadata prov (currentEmail st) fn = Inr md
        \<and> getFileBlob prov (currentEmail st) fn = Inr c
        \<and> currentEmail st = Some em
        \<and> digest_sha256 P (stringToBytes (trim (toLowerCase P em))) = Inr s
        \<and> pbkdf2_sha256 P (stringToBytes pw) (take 16 s) PBKDF2_ITERATIONS 256 = Inr bits
        \<and> decryptFile P c (meta_iv md) (meta_salt md) (bufferToHex bits) = Inr q
        \<and> digest_sha256 P q = Inr dq
        \<and> file_hash md = bufferToHex d0 \<and> dq \<noteq> d0 \<longrightarrow>
        performDecrypt P prov st fn pw = ?integrity"
  proof
    assume a: "pw \<noteq> [] \<and> getMetadata prov (currentEmail st) fn = Inr md
        \<and> getFileBlob prov (currentEmail st) fn = Inr c
        \<and> currentEmail st = Some em
        \<and> digest_sha256 P (stringToBytes (trim (toLowerCase P em))) = Inr s
        \<and> pbkdf2_sha256 P (stringToBytes pw) (take 16 s) PBKDF2_ITERATIONS 256 = Inr bits
        \<and> decryptFile P c (meta_iv md) (meta_salt md) (bufferToHex bits) = Inr q
        \<and> digest_sha256 P q = Inr dq
        \<and> file_hash md = bufferToHex d0 \<and> dq \<noteq> d0"
    then have d: "decryptFile P c (meta_iv md) (meta_salt md) (bufferToHex bits) = Inr q"
      "digest_sha256 P q = Inr dq" "file_hash md = bufferToHex d0" "dq \<noteq> d0"
      by blast+
    from a have r: "performDecrypt P prov st fn pw = ?run"
      using run by blast
    show "performDecrypt P prov st fn pw = ?integrity"
      by (simp add: r d integrity hashFile_def bufferToHex_inject)
  qed
  have c4: "pw \<noteq> [] \<and> getMetadata prov (currentEmail st) fn = Inr md
        \<and> getFileBlob prov (currentEmail st) fn = Inr c
        \<and> currentEmail st = Some em
        \<and> digest_sha256 P (stringToBytes (trim (toLowerCase P em))) = Inr s
        \<and> pbkdf2_sha256 P (stringToBytes pw) (take 16 s) PBKDF2_ITERATIONS 256 = Inr bits
        \<and> decryptFile P c (meta_iv md) (meta_salt md) (bufferToHex bits) = Inl err
        \<and> errName err = js ''OperationError'' \<and> errMessage err \<noteq> js ''INTEGRITY_FAIL'' \<longrightarrow>
        performDecrypt P prov st fn pw =
          ErrorShown (js ''Decryption Failed'')
            (js ''The password you entered is incorrect, or the file is corrupted. Please check your password and try again.'')"
  proof
    assume a: "pw \<noteq> [] \<and> getMetadata prov (currentEmail st) fn = Inr md
        \<and> getFileBlob prov (currentEmail st) fn = Inr c
        \<and> currentEmail st = Some em
        \<and> digest_sha256 P (stringToBytes (trim (toLowerCase P em))) = Inr s
        \<and> pbkdf2_sha256 P (stringToBytes pw) (take 16 s) PBKDF2_ITERATIONS 256 = Inr bits
        \<and> decryptFile P c (meta_iv md) (meta_salt md) (bufferToHex bits) = Inl err
        \<and> errName err = js ''OperationError'' \<and> errMessage err \<noteq> js ''INTEGRITY_FAIL''"
    then have d: "decryptFile P c (meta_iv md) (meta_salt md) (bufferToHex bits) = Inl err"
      "errName err = js ''OperationError''" "errMessage err \<noteq> js ''INTEGRITY_FAIL''"
      by blast+
    from a have r: "performDecrypt P prov st fn pw = ?run"
      using run by blast
    show "performDecrypt P prov st fn pw =
          ErrorShown (js ''Decryption Failed'')
            (js ''The password you entered is incorrect, or the file is corrupted. Please check your password and try again.'')"
      by (simp add: r d decryptError_def)
  qed
  have c5: "js ''Integrity Check Failed'' \<noteq> js ''Decryption Failed''"
    by (simp add: js_def)
  from c1 c2 c3 c4 c5 show ?thesis by (intro conjI)
qed


theorem download_integrity_check_witness:
  "performDecrypt toy_platform (Some (toy_storage ([59, 56, 57] @ replicate 16 65))) toy_session
      (js ''a.txt'') (js ''0123456789abcdefX'') = Downloaded (js ''a.txt'') [1, 2, 3]
   \<and> digest_sha256 toy_platform [1, 2, 3] = Inr ([3, 1, 2, 3] @ replicate 28 0)
   \<and> bufferToHex ([3, 1, 2, 3] @ replicate 28 0) = file_hash toy_metadata
   \<and> performDecrypt toy_platform (Some (toy_storage ([51, 51] @ replicate 16 77))) toy_session
      (js ''a.txt'') (js ''0123456789abcdefX'') =
        ErrorShown (js ''Integrity Check Failed'')
          (js ''The file appears to have been tampered with. The SHA-256 hash does not match the original. This file should not be trusted.'')
   \<and> performDecrypt toy_platform (Some (toy_storage ([58, 56, 57] @ replicate 16 65))) toy_session
      (js ''a.txt'') (js ''0123456789abcdefX'') =
        ErrorShown (js ''Decryption Failed'')
          (js ''The password you entered is incorrect, or the file is corrupted. Please check your password and try again.'')"
proof -
  let ?stored = "[59, 56, 57] @ replicate 16 65 :: byte list"
  let ?other = "[51, 51] @ replicate 16 77 :: byte list"
  let ?tampered = "[58, 56, 57] @ replicate 16 65 :: byte list"
  let ?s = "[6, 97, 64, 98, 46, 99, 100] @ replicate 25 0 :: byte list"
  let ?d = "[3, 1, 2, 3] @ replicate 28 0 :: byte list"
  let ?pw = "js ''0123456789abcdefX''"
  have pw: "?pw \<noteq> []"
    by (rule toy_names)
  have em: "currentEmail toy_session = Some (js ''a@b.cd'')"
    by (simp add: toy_session_def)
  have dg: "digest_sha256 toy_platform
      (stringToBytes (trim (toLowerCase toy_platform (js ''a@b.cd'')))) = Inr ?s"
    by (rule toy_digest_email)
  have pb: "pbkdf2_sha256 toy_platform (stringToBytes ?pw) (take 16 ?s) PBKDF2_ITERATIONS 256 =
      Inr (184 # replicate 31 0)"
    by (simp only: toy_digest_email toy_platform_simps toy_pbkdf2_passwords)
  have st: "getMetadata (Some (toy_storage b)) (currentEmail toy_session) (js ''a.txt'') =
      Inr toy_metadata"
    "getFileBlob (Some (toy_storage b)) (currentEmail toy_session) (js ''a.txt'') = Inr b" for b
    by (simp_all only: toy_storage_simps)
  have fold: "bufferToHex (184 # replicate 31 0) = toy_passwordHash"
    by (simp only: toy_passwordHash_def)
  have decG: "decryptFile toy_platform ?stored (meta_iv toy_metadata) (meta_salt toy_metadata)
      (bufferToHex (184 # replicate 31 0)) = Inr [1, 2, 3]"
    by (simp add: fold toy_metadata_def toy_decryptFile_stored del: append.simps)
  have decS: "decryptFile toy_platform ?other (meta_iv toy_metadata) (meta_salt toy_metadata)
      (bufferToHex (184 # replicate 31 0)) = Inr [9, 9]"
    by (simp add: fold toy_metadata_def toy_decryptFile_stored del: append.simps)
  have decT: "decryptFile toy_platform ?tampered (meta_iv toy_metadata) (meta_salt toy_metadata)
      (bufferToHex (184 # replicate 31 0)) = Inl OperationError"
    by (simp add: fold toy_metadata_def toy_decryptFile_stored del: append.simps)
  have fh: "file_hash toy_metadata = bufferToHex ?d"
    by (simp add: toy_metadata_def)
  have ne: "[2, 9, 9] @ replicate 29 0 \<noteq> ?d"
    by simp
  have op: "errName OperationError = js ''OperationError''"
    "errMessage OperationError \<noteq> js ''INTEGRITY_FAIL''"
    by (simp_all add: OperationError_def js_def)
  have p2: "?pw \<noteq> []
      \<and> getMetadata (Some (toy_storage ?stored)) (currentEmail toy_session) (js ''a.txt'') =
          Inr toy_metadata
      \<and> getFileBlob (Some (toy_storage ?stored)) (currentEmail toy_session) (js ''a.txt'') =
          Inr ?stored
      \<and> currentEmail toy_session = Some (js ''a@b.cd'')
      \<and> digest_sha256 toy_platform
          (stringToBytes (trim (toLowerCase toy_platform (js ''a@b.cd'')))) = Inr ?s
      \<and> pbkdf2_sha256 toy_platform (stringToBytes ?pw) (take 16 ?s) PBKDF2_ITERATIONS 256 =
          Inr (184 # replicate 31 0)
      \<and> decryptFile toy_platform ?stored (meta_iv toy_metadata) (meta_salt toy_metadata)
          (bufferToHex (184 # replicate 31 0)) = Inr [1, 2, 3]
      \<and> digest_sha256 toy_platform [1, 2, 3] = Inr ?d"
    using pw st [of ?stored] em dg pb decG toy_digest_files(2) by blast
  from download_integrity_check [where P = toy_platform, THEN conjunct2, THEN conjunct1,
      rule_format, OF p2]
  have good: "performDecrypt toy_platform (Some (toy_storage ?stored)) toy_session (js ''a.txt'')
      ?pw = Downloaded (js ''a.txt'') [1, 2, 3]"
    by (simp add: toy_metadata_def toy_names del: append.simps)
  from download_integrity_check [where P = toy_platform, THEN conjunct1, rule_format, OF good]
  obtain md1 d1 where
    "getMetadata (Some (toy_storage ?stored)) (currentEmail toy_session) (js ''a.txt'') = Inr md1"
    "digest_sha256 toy_platform [1, 2, 3] = Inr d1" "bufferToHex d1 = file_hash md1"
    by blast
  then have h: "bufferToHex ?d = file_hash toy_metadata"
    by (simp only: st toy_digest_files sum.inject)
  have p3: "?pw \<noteq> []
      \<and> getMetadata (Some (toy_storage ?other)) (currentEmail toy_session) (js ''a.txt'') =
          Inr toy_metadata
      \<and> getFileBlob (Some (toy_storage ?other)) (currentEmail toy_session) (js ''a.txt'') =
          Inr ?other
      \<and> currentEmail toy_session = Some (js ''a@b.cd'')
      \<and> digest_sha256 toy_platform
          (stringToBytes (trim (toLowerCase toy_platform (js ''a@b.cd'')))) = Inr ?s
      \<and> pbkdf2_sha256 toy_platform (stringToBytes ?pw) (take 16 ?s) PBKDF2_ITERATIONS 256 =
          Inr (184 # replicate 31 0)
      \<and> decryptFile toy_platform ?other (meta_iv toy_metadata) (meta_salt toy_metadata)
          (bufferToHex (184 # replicate 31 0)) = Inr [9, 9]
      \<and> digest_sha256 toy_platform [9, 9] = Inr ([2, 9, 9] @ replicate 29 0)
      \<and> file_hash toy_metadata = bufferToHex ?d \<and> [2, 9, 9] @ replicate 29 0 \<noteq> ?d"
    using pw st [of ?other] em dg pb decS toy_digest_files(1) fh ne by blast
  note bad = download_integrity_check [where P = toy_platform, THEN conjunct2, THEN conjunct2,
      THEN conjunct1, rule_format, OF p3]
  have p4: "?pw \<noteq> []
      \<and> getMetadata (Some (toy_storage ?tampered)) (currentEmail toy_session) (js ''a.txt'') =
          Inr toy_metadata
      \<and> getFileBlob (Some (toy_storage ?tampered)) (currentEmail toy_session) (js ''a.txt'') =
          Inr ?tampered
      \<and> currentEmail toy_session = Some (js ''a@b.cd'')
      \<and> digest_sha256 toy_platform
          (stringToBytes (trim (toLowerCase toy_platform (js ''a@b.cd'')))) = Inr ?s
      \<and> pbkdf2_sha256 toy_platform (stringToBytes ?pw) (take 16 ?s) PBKDF2_ITERATIONS 256 =
          Inr (184 # replicate 31 0)
      \<and> decryptFile toy_platform ?tampered (meta_iv toy_metadata) (meta_salt toy_metadata)
          (bufferToHex (184 # replicate 31 0)) = Inl OperationError
      \<and> errName OperationError = js ''OperationError''
      \<and> errMessage OperationError \<noteq> js ''INTEGRITY_FAIL''"
    using pw st [of ?tampered] em dg pb decT op by blast
  note tamper = download_integrity_check [where P = toy_platform, THEN conjunct2, THEN conjunct2,
      THEN conjunct2, THEN conjunct1, rule_format, OF p4]
  from good toy_digest_files(2) h bad tamper show ?thesis by (intro conjI)
qed

end
